theory Spec2Isabelle
  imports Main "HOL-Library.Word"
begin

section \<open>The DeFiLending ledger (contract \<open>DeFiLending\<close>, Solidity \<open>^0.8.0\<close>)\<close>

text \<open>
  The contract is embedded as pure functions over an explicit storage record. Solidity 0.8
  arithmetic on \<open>uint256\<close> is checked: an overflow, an underflow or a division by zero
  reverts with a panic. A revert rolls the whole call back, so a call returns either an
  error or the new storage (\<open>error + state\<close>). Everything outside the contract (the
  caller, the block time, the Chainlink feed, the ERC20 token, the \<open>Ownable\<close> check) is
  read from an environment record that is given per call. The \<open>nonReentrant\<close> modifier
  is not modelled: calls are top-level calls, one after the other.
\<close>

subsection \<open>Values and errors\<close>

type_synonym u256 = "256 word"
type_synonym address = "160 word"

datatype error =
    Panic                        \<comment> \<open>checked arithmetic failed\<close>
  | Unauthorized                 \<comment> \<open>\<open>onlyOwner\<close> refused the caller\<close>
  | ExternalCallReverted         \<comment> \<open>a call to the feed or to the token reverted\<close>
  | AssetAlreadyExists           \<comment> \<open>"Asset already exists"\<close>
  | CollateralFactorTooHigh      \<comment> \<open>"Collateral factor too high"\<close>
  | BorrowFactorTooHigh          \<comment> \<open>"Borrow factor too high"\<close>
  | InvalidLiquidationThreshold  \<comment> \<open>"Invalid liquidation threshold"\<close>
  | AssetDoesNotExist            \<comment> \<open>"Asset does not exist"\<close>
  | InvalidPrice                 \<comment> \<open>"Invalid price"\<close>
  | AssetNotActive               \<comment> \<open>"Asset not active"\<close>
  | AmountZero                   \<comment> \<open>"Amount must be greater than 0"\<close>
  | InsufficientBalance          \<comment> \<open>"Insufficient balance"\<close>
  | InsufficientLiquidity        \<comment> \<open>"Insufficient liquidity"\<close>
  | HealthFactorTooLow           \<comment> \<open>"Health factor too low"\<close>
  | NoOutstandingLoan            \<comment> \<open>"No outstanding loan"\<close>
  | PositionIsHealthy            \<comment> \<open>"Position is healthy"\<close>
  | InsufficientCollateral       \<comment> \<open>"Insufficient collateral"\<close>
  | TransferFailed               \<comment> \<open>"Transfer failed"\<close>
  | CollateralTransferFailed     \<comment> \<open>"Collateral transfer failed"\<close>

definition bind_res :: "error + 'a \<Rightarrow> ('a \<Rightarrow> error + 'b) \<Rightarrow> error + 'b" where
  "bind_res r f = (case r of Inl e \<Rightarrow> Inl e | Inr x \<Rightarrow> f x)"

definition chk_add :: "u256 \<Rightarrow> u256 \<Rightarrow> error + u256" where
  "chk_add a b = (if unat a + unat b < 2 ^ 256 then Inr (a + b) else Inl Panic)"

definition chk_sub :: "u256 \<Rightarrow> u256 \<Rightarrow> error + u256" where
  "chk_sub a b = (if unat b \<le> unat a then Inr (a - b) else Inl Panic)"

definition chk_mul :: "u256 \<Rightarrow> u256 \<Rightarrow> error + u256" where
  "chk_mul a b = (if unat a * unat b < 2 ^ 256 then Inr (a * b) else Inl Panic)"

definition chk_div :: "u256 \<Rightarrow> u256 \<Rightarrow> error + u256" where
  "chk_div a b = (if b = 0 then Inl Panic else Inr (a div b))"

subsection \<open>Storage\<close>

record Asset =
  tokenAddress :: address
  priceFeedAddress :: address
  collateralFactor :: u256
  borrowFactor :: u256
  liquidationThreshold :: u256
  totalSupplied :: u256
  totalBorrowed :: u256
  supplyInterestRate :: u256
  borrowInterestRate :: u256
  isActive :: bool

record UserPosition =
  supplied :: u256
  borrowed :: u256
  lastUpdateTimestamp :: u256

text \<open>A Solidity mapping is total: a key never written reads as the all-zero value.\<close>

record state =
  assets :: "string \<Rightarrow> Asset"
  assetSymbols :: "string list"
  userPositions :: "address \<Rightarrow> string \<Rightarrow> UserPosition"

definition zero_asset :: Asset where
  "zero_asset = \<lparr>tokenAddress = 0, priceFeedAddress = 0, collateralFactor = 0,
     borrowFactor = 0, liquidationThreshold = 0, totalSupplied = 0, totalBorrowed = 0,
     supplyInterestRate = 0, borrowInterestRate = 0, isActive = False\<rparr>"

definition zero_position :: UserPosition where
  "zero_position = \<lparr>supplied = 0, borrowed = 0, lastUpdateTimestamp = 0\<rparr>"

definition init_state :: state where
  "init_state = \<lparr>assets = (\<lambda>_. zero_asset), assetSymbols = [],
     userPositions = (\<lambda>_ _. zero_position)\<rparr>"

definition set_asset :: "state \<Rightarrow> string \<Rightarrow> Asset \<Rightarrow> state" where
  "set_asset s symbol a = s\<lparr>assets := (assets s)(symbol := a)\<rparr>"

definition set_position :: "state \<Rightarrow> address \<Rightarrow> string \<Rightarrow> UserPosition \<Rightarrow> state" where
  "set_position s user symbol p =
     s\<lparr>userPositions := (userPositions s)(user := (userPositions s user)(symbol := p))\<rparr>"

subsection \<open>The environment of a call\<close>

text \<open>
  \<open>sender_is_owner\<close> is the outcome of the imported \<open>Ownable\<close> check for this caller;
  the owner is not part of the storage record, so a change of owner needs no call of its
  own and every ownership history is covered.
  \<open>latestRoundData feed\<close> is the \<open>int256\<close> answer of the feed at that address, and the
  two token fields are the boolean an ERC20 call returns; \<open>None\<close> is a call that reverts.
\<close>

record env =
  msg_sender :: address
  sender_is_owner :: bool
  block_timestamp :: u256
  latestRoundData :: "address \<Rightarrow> u256 option"
  token_transferFrom :: "address \<Rightarrow> address \<Rightarrow> u256 \<Rightarrow> bool option"
  token_transfer :: "address \<Rightarrow> address \<Rightarrow> u256 \<Rightarrow> bool option"

definition call_token :: "bool option \<Rightarrow> error \<Rightarrow> error + unit" where
  "call_token r e = (case r of None \<Rightarrow> Inl ExternalCallReverted
     | Some ok \<Rightarrow> if ok then Inr () else Inl e)"

subsection \<open>Registry: \<open>addAsset\<close>, \<open>updateAsset\<close>\<close>

definition addAsset ::
  "env \<Rightarrow> state \<Rightarrow> string \<Rightarrow> address \<Rightarrow> address \<Rightarrow> u256 \<Rightarrow> u256 \<Rightarrow> u256 \<Rightarrow> u256 \<Rightarrow> u256
     \<Rightarrow> error + state" where
  "addAsset e s symbol tokenAddr priceFeedAddr cf bf lt supplyRate borrowRate =
    (if \<not> sender_is_owner e then Inl Unauthorized
     else if tokenAddress (assets s symbol) \<noteq> 0 then Inl AssetAlreadyExists
     else if \<not> cf \<le> 9000 then Inl CollateralFactorTooHigh
     else if \<not> bf \<le> cf then Inl BorrowFactorTooHigh
     else if \<not> lt > cf then Inl InvalidLiquidationThreshold
     else Inr ((set_asset s symbol
            \<lparr>tokenAddress = tokenAddr, priceFeedAddress = priceFeedAddr,
             collateralFactor = cf, borrowFactor = bf, liquidationThreshold = lt,
             totalSupplied = 0, totalBorrowed = 0,
             supplyInterestRate = supplyRate, borrowInterestRate = borrowRate,
             isActive = True\<rparr>)
          \<lparr>assetSymbols := assetSymbols s @ [symbol]\<rparr>))"

definition updateAsset ::
  "env \<Rightarrow> state \<Rightarrow> string \<Rightarrow> u256 \<Rightarrow> u256 \<Rightarrow> u256 \<Rightarrow> u256 \<Rightarrow> u256 \<Rightarrow> bool
     \<Rightarrow> error + state" where
  "updateAsset e s symbol cf bf lt supplyRate borrowRate active =
    (if \<not> sender_is_owner e then Inl Unauthorized
     else if \<not> tokenAddress (assets s symbol) \<noteq> 0 then Inl AssetDoesNotExist
     else if \<not> cf \<le> 9000 then Inl CollateralFactorTooHigh
     else if \<not> bf \<le> cf then Inl BorrowFactorTooHigh
     else if \<not> lt > cf then Inl InvalidLiquidationThreshold
     else Inr (set_asset s symbol
            ((assets s symbol)\<lparr>collateralFactor := cf, borrowFactor := bf,
               liquidationThreshold := lt, supplyInterestRate := supplyRate,
               borrowInterestRate := borrowRate, isActive := active\<rparr>)))"

subsection \<open>Oracle: \<open>getAssetPrice\<close>\<close>

definition getAssetPrice :: "env \<Rightarrow> state \<Rightarrow> string \<Rightarrow> error + u256" where
  "getAssetPrice e s symbol =
    (let asset = assets s symbol in
     if \<not> tokenAddress asset \<noteq> 0 then Inl AssetDoesNotExist
     else case latestRoundData e (priceFeedAddress asset) of
            None \<Rightarrow> Inl ExternalCallReverted
          | Some price \<Rightarrow>
              if \<not> 0 < sint price then Inl InvalidPrice
              else chk_mul price (10 ^ 10))"

subsection \<open>Interest: \<open>_updateInterest\<close>\<close>

text \<open>\<open>365 days\<close> is 31536000 seconds, so the divisor \<open>10000 * 365 days\<close> is 315360000000.\<close>

definition interest_of :: "u256 \<Rightarrow> u256 \<Rightarrow> u256 \<Rightarrow> error + u256" where
  "interest_of balance rate timeElapsed =
     bind_res (chk_mul balance rate) (\<lambda>x.
     bind_res (chk_mul x timeElapsed) (\<lambda>y.
     chk_div y 315360000000))"

definition accrue_supply :: "string \<Rightarrow> address \<Rightarrow> u256 \<Rightarrow> state \<Rightarrow> error + state" where
  "accrue_supply symbol user timeElapsed s =
    (let position = userPositions s user symbol; asset = assets s symbol in
     if supplied position > 0 then
       bind_res (interest_of (supplied position) (supplyInterestRate asset) timeElapsed)
         (\<lambda>supplyInterest.
       bind_res (chk_add (supplied position) supplyInterest) (\<lambda>newSup.
       bind_res (chk_add (totalSupplied asset) supplyInterest) (\<lambda>tot.
       Inr (set_asset (set_position s user symbol (position\<lparr>supplied := newSup\<rparr>))
              symbol (asset\<lparr>totalSupplied := tot\<rparr>)))))
     else Inr s)"

definition accrue_borrow :: "string \<Rightarrow> address \<Rightarrow> u256 \<Rightarrow> state \<Rightarrow> error + state" where
  "accrue_borrow symbol user timeElapsed s =
    (let position = userPositions s user symbol; asset = assets s symbol in
     if borrowed position > 0 then
       bind_res (interest_of (borrowed position) (borrowInterestRate asset) timeElapsed)
         (\<lambda>borrowInterest.
       bind_res (chk_add (borrowed position) borrowInterest) (\<lambda>newBor.
       bind_res (chk_add (totalBorrowed asset) borrowInterest) (\<lambda>tot.
       Inr (set_asset (set_position s user symbol (position\<lparr>borrowed := newBor\<rparr>))
              symbol (asset\<lparr>totalBorrowed := tot\<rparr>)))))
     else Inr s)"

definition updateInterest :: "env \<Rightarrow> string \<Rightarrow> address \<Rightarrow> state \<Rightarrow> error + state" where
  "updateInterest e symbol user s =
    (let position = userPositions s user symbol in
     if lastUpdateTimestamp position = 0 then
       Inr (set_position s user symbol
              (position\<lparr>lastUpdateTimestamp := block_timestamp e\<rparr>))
     else
       bind_res (chk_sub (block_timestamp e) (lastUpdateTimestamp position))
         (\<lambda>timeElapsed.
       if timeElapsed = 0 then Inr s
       else
         bind_res (accrue_supply symbol user timeElapsed s) (\<lambda>s1.
         bind_res (accrue_borrow symbol user timeElapsed s1) (\<lambda>s2.
         Inr (set_position s2 user symbol
                ((userPositions s2 user symbol)
                   \<lparr>lastUpdateTimestamp := block_timestamp e\<rparr>))))))"

subsection \<open>Health: \<open>_checkHealthFactor\<close>, \<open>_isHealthy\<close>, \<open>getUserHealthFactor\<close>\<close>

definition checkHealthFactor ::
  "env \<Rightarrow> state \<Rightarrow> string \<Rightarrow> address \<Rightarrow> u256 \<Rightarrow> u256 \<Rightarrow> error + bool" where
  "checkHealthFactor e s symbol user supp borr =
    (if borr = 0 then Inr True
     else
       let asset = assets s symbol in
       bind_res (getAssetPrice e s symbol) (\<lambda>assetPrice.
       bind_res (chk_mul supp assetPrice) (\<lambda>x.
       bind_res (chk_mul x (collateralFactor asset)) (\<lambda>y.
       bind_res (chk_div y 10000) (\<lambda>collateralValue.
       bind_res (chk_mul borr assetPrice) (\<lambda>borrowValue.
       Inr (collateralValue \<ge> borrowValue)))))))"

definition isHealthy :: "env \<Rightarrow> state \<Rightarrow> string \<Rightarrow> address \<Rightarrow> error + bool" where
  "isHealthy e s symbol user =
    (let position = userPositions s user symbol in
     if borrowed position = 0 then Inr True
     else
       let asset = assets s symbol in
       bind_res (getAssetPrice e s symbol) (\<lambda>assetPrice.
       bind_res (chk_mul (supplied position) assetPrice) (\<lambda>x.
       bind_res (chk_mul x (liquidationThreshold asset)) (\<lambda>y.
       bind_res (chk_div y 10000) (\<lambda>collateralValue.
       bind_res (chk_mul (borrowed position) assetPrice) (\<lambda>borrowValue.
       Inr (collateralValue \<ge> borrowValue)))))))"


subsection \<open>Reads: \<open>getAllAssets\<close>, \<open>getAssetDetails\<close>\<close>

definition getAllAssets :: "state \<Rightarrow> string list" where
  "getAllAssets s = assetSymbols s"

definition getAssetDetails ::
  "state \<Rightarrow> string \<Rightarrow>
     address \<times> address \<times> u256 \<times> u256 \<times> u256 \<times> u256 \<times> u256 \<times> u256 \<times> u256 \<times> bool" where
  "getAssetDetails s symbol =
    (let asset = assets s symbol in
     (tokenAddress asset, priceFeedAddress asset, collateralFactor asset,
      borrowFactor asset, liquidationThreshold asset, totalSupplied asset,
      totalBorrowed asset, supplyInterestRate asset, borrowInterestRate asset,
      isActive asset))"

subsection \<open>Balance-changing calls\<close>

text \<open>
  \<open>asset\<close> and \<open>position\<close> are storage references in the source, so a read after
  \<open>_updateInterest\<close> sees the accrued values; the \<open>require\<close>s placed before it read the
  values stored when the call started.
\<close>

text \<open>\<open>supply\<close> of the source; the name is an Isar keyword, hence the suffix.\<close>

definition supply_fn :: "env \<Rightarrow> state \<Rightarrow> string \<Rightarrow> u256 \<Rightarrow> error + state" where
  "supply_fn e s symbol amount =
    (if \<not> isActive (assets s symbol) then Inl AssetNotActive
     else if \<not> amount > 0 then Inl AmountZero
     else
       bind_res (updateInterest e symbol (msg_sender e) s) (\<lambda>s1.
       bind_res (call_token (token_transferFrom e (tokenAddress (assets s1 symbol))
                   (msg_sender e) amount) TransferFailed) (\<lambda>(_::unit).
       let position = userPositions s1 (msg_sender e) symbol in
       bind_res (chk_add (supplied position) amount) (\<lambda>newSup.
       let s2 = set_position s1 (msg_sender e) symbol (position\<lparr>supplied := newSup\<rparr>) in
       bind_res (chk_add (totalSupplied (assets s2 symbol)) amount) (\<lambda>tot.
       Inr (set_asset s2 symbol ((assets s2 symbol)\<lparr>totalSupplied := tot\<rparr>)))))))"

definition withdraw :: "env \<Rightarrow> state \<Rightarrow> string \<Rightarrow> u256 \<Rightarrow> error + state" where
  "withdraw e s symbol amount =
    (if \<not> isActive (assets s symbol) then Inl AssetNotActive
     else if \<not> amount > 0 then Inl AmountZero
     else if \<not> supplied (userPositions s (msg_sender e) symbol) \<ge> amount
       then Inl InsufficientBalance
     else
       bind_res (updateInterest e symbol (msg_sender e) s) (\<lambda>s1.
       let position = userPositions s1 (msg_sender e) symbol in
       bind_res (chk_sub (supplied position) amount) (\<lambda>newSupplied.
       bind_res (checkHealthFactor e s1 symbol (msg_sender e) newSupplied
                   (borrowed position)) (\<lambda>ok.
       if \<not> ok then Inl HealthFactorTooLow
       else
         let s2 = set_position s1 (msg_sender e) symbol
                    (position\<lparr>supplied := newSupplied\<rparr>) in
         bind_res (chk_sub (totalSupplied (assets s2 symbol)) amount) (\<lambda>tot.
         let s3 = set_asset s2 symbol ((assets s2 symbol)\<lparr>totalSupplied := tot\<rparr>) in
         bind_res (call_token (token_transfer e (tokenAddress (assets s3 symbol))
                     (msg_sender e) amount) TransferFailed) (\<lambda>(_::unit).
         Inr s3))))))"

definition borrow :: "env \<Rightarrow> state \<Rightarrow> string \<Rightarrow> u256 \<Rightarrow> error + state" where
  "borrow e s symbol amount =
    (if \<not> isActive (assets s symbol) then Inl AssetNotActive
     else if \<not> amount > 0 then Inl AmountZero
     else
       bind_res (chk_sub (totalSupplied (assets s symbol)) (totalBorrowed (assets s symbol)))
         (\<lambda>available.
       if \<not> available \<ge> amount then Inl InsufficientLiquidity
       else
         bind_res (updateInterest e symbol (msg_sender e) s) (\<lambda>s1.
         let position = userPositions s1 (msg_sender e) symbol in
         bind_res (chk_add (borrowed position) amount) (\<lambda>wanted.
         bind_res (checkHealthFactor e s1 symbol (msg_sender e) (supplied position) wanted)
           (\<lambda>ok.
         if \<not> ok then Inl HealthFactorTooLow
         else
           bind_res (chk_add (borrowed position) amount) (\<lambda>newBor.
           let s2 = set_position s1 (msg_sender e) symbol
                      (position\<lparr>borrowed := newBor\<rparr>) in
           bind_res (chk_add (totalBorrowed (assets s2 symbol)) amount) (\<lambda>tot.
           let s3 = set_asset s2 symbol ((assets s2 symbol)\<lparr>totalBorrowed := tot\<rparr>) in
           bind_res (call_token (token_transfer e (tokenAddress (assets s3 symbol))
                       (msg_sender e) amount) TransferFailed) (\<lambda>(_::unit).
           Inr s3))))))))"

definition repay :: "env \<Rightarrow> state \<Rightarrow> string \<Rightarrow> u256 \<Rightarrow> error + state" where
  "repay e s symbol amount =
    (if \<not> isActive (assets s symbol) then Inl AssetNotActive
     else if \<not> amount > 0 then Inl AmountZero
     else if \<not> borrowed (userPositions s (msg_sender e) symbol) > 0
       then Inl NoOutstandingLoan
     else
       bind_res (updateInterest e symbol (msg_sender e) s) (\<lambda>s1.
       let position = userPositions s1 (msg_sender e) symbol;
           repayAmount = (if amount > borrowed position then borrowed position else amount)
       in
       bind_res (call_token (token_transferFrom e (tokenAddress (assets s1 symbol))
                   (msg_sender e) repayAmount) TransferFailed) (\<lambda>(_::unit).
       bind_res (chk_sub (borrowed position) repayAmount) (\<lambda>newBor.
       let s2 = set_position s1 (msg_sender e) symbol (position\<lparr>borrowed := newBor\<rparr>) in
       bind_res (chk_sub (totalBorrowed (assets s2 symbol)) repayAmount) (\<lambda>tot.
       Inr (set_asset s2 symbol ((assets s2 symbol)\<lparr>totalBorrowed := tot\<rparr>)))))))"

text \<open>
  The two expressions of \<open>liquidate\<close> that fix the amounts:
  \<open>amount > position.borrowed ? position.borrowed : amount\<close> and
  \<open>(liquidationAmount * assetPrice * 11000) / (assetPrice * 10000)\<close>.
\<close>

definition liquidationAmount :: "u256 \<Rightarrow> u256 \<Rightarrow> u256" where
  "liquidationAmount amount bor = (if amount > bor then bor else amount)"

definition collateralToSeize :: "u256 \<Rightarrow> u256 \<Rightarrow> error + u256" where
  "collateralToSeize liqAmount assetPrice =
     bind_res (chk_mul liqAmount assetPrice) (\<lambda>x.
     bind_res (chk_mul x 11000) (\<lambda>numerator.
     bind_res (chk_mul assetPrice 10000) (\<lambda>denominator.
     chk_div numerator denominator)))"

definition liquidate :: "env \<Rightarrow> state \<Rightarrow> address \<Rightarrow> string \<Rightarrow> u256 \<Rightarrow> error + state" where
  "liquidate e s borrower symbol amount =
    (if \<not> isActive (assets s symbol) then Inl AssetNotActive
     else if \<not> amount > 0 then Inl AmountZero
     else if \<not> borrowed (userPositions s borrower symbol) > 0 then Inl NoOutstandingLoan
     else
       bind_res (updateInterest e symbol borrower s) (\<lambda>s1.
       bind_res (isHealthy e s1 symbol borrower) (\<lambda>healthy.
       if \<not> \<not> healthy then Inl PositionIsHealthy
       else
         let position = userPositions s1 borrower symbol;
             liqAmount = liquidationAmount amount (borrowed position)
         in
         bind_res (getAssetPrice e s1 symbol) (\<lambda>assetPrice.
         bind_res (collateralToSeize liqAmount assetPrice) (\<lambda>seized.
         if \<not> seized \<le> supplied position then Inl InsufficientCollateral
         else
           bind_res (call_token (token_transferFrom e (tokenAddress (assets s1 symbol))
                       (msg_sender e) liqAmount) TransferFailed) (\<lambda>(_::unit).
           bind_res (chk_sub (borrowed position) liqAmount) (\<lambda>newBor.
           bind_res (chk_sub (supplied position) seized) (\<lambda>newSup.
           let s2 = set_position s1 borrower symbol
                      (position\<lparr>borrowed := newBor, supplied := newSup\<rparr>) in
           bind_res (chk_sub (totalBorrowed (assets s2 symbol)) liqAmount) (\<lambda>totB.
           bind_res (chk_sub (totalSupplied (assets s2 symbol)) seized) (\<lambda>totS.
           let s3 = set_asset s2 symbol
                      ((assets s2 symbol)\<lparr>totalBorrowed := totB, totalSupplied := totS\<rparr>) in
           bind_res (call_token (token_transfer e (tokenAddress (assets s3 symbol))
                       (msg_sender e) seized) CollateralTransferFailed) (\<lambda>(_::unit).
           Inr s3)))))))))))"

subsection \<open>Calls and reachable storage\<close>

datatype call =
    AddAsset string address address u256 u256 u256 u256 u256
  | UpdateAsset string u256 u256 u256 u256 u256 bool
  | Supply string u256
  | Withdraw string u256
  | Borrow string u256
  | Repay string u256
  | Liquidate address string u256

fun exec :: "env \<Rightarrow> call \<Rightarrow> state \<Rightarrow> error + state" where
  "exec e (AddAsset symbol tok feed cf bf lt sr br) s = addAsset e s symbol tok feed cf bf lt sr br"
| "exec e (UpdateAsset symbol cf bf lt sr br active) s = updateAsset e s symbol cf bf lt sr br active"
| "exec e (Supply symbol amount) s = supply_fn e s symbol amount"
| "exec e (Withdraw symbol amount) s = withdraw e s symbol amount"
| "exec e (Borrow symbol amount) s = borrow e s symbol amount"
| "exec e (Repay symbol amount) s = repay e s symbol amount"
| "exec e (Liquidate borrower symbol amount) s = liquidate e s borrower symbol amount"

text \<open>A reverted call leaves the storage as it was.\<close>

definition step :: "env \<Rightarrow> call \<Rightarrow> state \<Rightarrow> state" where
  "step e c s = (case exec e c s of Inl _ \<Rightarrow> s | Inr s' \<Rightarrow> s')"

inductive reachable :: "state \<Rightarrow> bool" where
  reachable_init: "reachable init_state"
| reachable_step: "reachable s \<Longrightarrow> reachable (step e c s)"

subsection \<open>Auxiliary definitions for the statements\<close>

text \<open>
  The interest formula in the specification's words, on natural numbers:
  \<open>floor(balance * rateBps * elapsed / (10000 * secondsPerYear))\<close> with
  \<open>secondsPerYear = 365 * 86400\<close>.
\<close>

definition spec_interest :: "nat \<Rightarrow> nat \<Rightarrow> nat \<Rightarrow> nat" where
  "spec_interest balance rateBps elapsed = balance * rateBps * elapsed div (10000 * (365 * 86400))"

text \<open>
  A call on \<open>(symbol, user)\<close> writes at most the two totals of that asset and that one
  position; \<open>touch\<close> is the storage after such a write.
\<close>

definition touch :: "state \<Rightarrow> string \<Rightarrow> address \<Rightarrow> u256 \<Rightarrow> u256 \<Rightarrow> UserPosition \<Rightarrow> state" where
  "touch s symbol user S B p =
     s\<lparr>assets := (assets s)(symbol := (assets s symbol)\<lparr>totalSupplied := S, totalBorrowed := B\<rparr>),
       userPositions := (userPositions s)(user := (userPositions s user)(symbol := p))\<rparr>"

text \<open>The accrual of a position fits 256 bits: no product and no sum overflows.\<close>

definition accrual_fits :: "env \<Rightarrow> state \<Rightarrow> string \<Rightarrow> address \<Rightarrow> bool" where
  "accrual_fits e s symbol user =
    (let p = userPositions s user symbol; a = assets s symbol;
         elapsed = unat (block_timestamp e) - unat (lastUpdateTimestamp p);
         si = spec_interest (unat (supplied p)) (unat (supplyInterestRate a)) elapsed;
         bi = spec_interest (unat (borrowed p)) (unat (borrowInterestRate a)) elapsed
     in unat (supplied p) * unat (supplyInterestRate a) * elapsed < 2 ^ 256
      \<and> unat (borrowed p) * unat (borrowInterestRate a) * elapsed < 2 ^ 256
      \<and> unat (supplied p) + si < 2 ^ 256 \<and> unat (totalSupplied a) + si < 2 ^ 256
      \<and> unat (borrowed p) + bi < 2 ^ 256 \<and> unat (totalBorrowed a) + bi < 2 ^ 256)"

subsection \<open>Concrete worlds and ledgers\<close>

text \<open>
  A caller \<open>who\<close> at time \<open>now\<close>; address 1 is the owner, the feed answers 1.0 with eight
  decimals, and every token call returns true.
\<close>

definition world :: "address \<Rightarrow> u256 \<Rightarrow> env" where
  "world who now = \<lparr>msg_sender = who, sender_is_owner = (who = 1), block_timestamp = now,
     latestRoundData = (\<lambda>_. Some 100000000),
     token_transferFrom = (\<lambda>_ _ _. Some True),
     token_transfer = (\<lambda>_ _ _. Some True)\<rparr>"

definition market :: "u256 \<Rightarrow> u256 \<Rightarrow> u256 \<Rightarrow> u256 \<Rightarrow> u256 \<Rightarrow> u256 \<Rightarrow> bool \<Rightarrow> Asset" where
  "market cf lt sr br S B active = \<lparr>tokenAddress = 11, priceFeedAddress = 12, collateralFactor = cf,
     borrowFactor = cf, liquidationThreshold = lt, totalSupplied = S, totalBorrowed = B,
     supplyInterestRate = sr, borrowInterestRate = br, isActive = active\<rparr>"

definition ledger :: "Asset \<Rightarrow> address \<Rightarrow> UserPosition \<Rightarrow> state" where
  "ledger a user p = \<lparr>assets = (\<lambda>_. zero_asset)(''DAI'' := a), assetSymbols = [''DAI''],
     userPositions = (\<lambda>_ _. zero_position)(user := (\<lambda>_. zero_position)(''DAI'' := p))\<rparr>"

definition pool :: Asset where
  "pool = market 7500 8500 500 1000 1000 500 True"

definition pool_fresh :: state where
  "pool_fresh = ledger pool 7 \<lparr>supplied = 1000, borrowed = 0, lastUpdateTimestamp = 0\<rparr>"

definition pool_old :: state where
  "pool_old = ledger pool 7 \<lparr>supplied = 1000, borrowed = 500, lastUpdateTimestamp = 1000\<rparr>"

definition pool_new :: state where
  "pool_new = ledger (market 7500 8500 500 1000 1050 550 True) 7
        \<lparr>supplied = 1050, borrowed = 550, lastUpdateTimestamp = 31537000\<rparr>"

definition listed :: "Asset \<Rightarrow> state" where
  "listed a = \<lparr>assets = (\<lambda>_. zero_asset)(''DAI'' := a), assetSymbols = [''DAI''],
     userPositions = (\<lambda>_ _. zero_position)\<rparr>"

definition ledger2 :: "Asset \<Rightarrow> address \<Rightarrow> UserPosition \<Rightarrow> address \<Rightarrow> UserPosition \<Rightarrow> state" where
  "ledger2 a u p v q = \<lparr>assets = (\<lambda>_. zero_asset)(''DAI'' := a), assetSymbols = [''DAI''],
     userPositions = (\<lambda>_ _. zero_position)
       (u := (\<lambda>_. zero_position)(''DAI'' := p), v := (\<lambda>_. zero_position)(''DAI'' := q))\<rparr>"

definition dai :: "u256 \<Rightarrow> u256 \<Rightarrow> Asset" where
  "dai S B = market 9000 9400 0 10000 S B True"

definition dai_listed :: state where
  "dai_listed = listed (dai 0 0)"

definition dai_supplied :: state where
  "dai_supplied = ledger (dai 1000 0) 7 \<lparr>supplied = 1000, borrowed = 0, lastUpdateTimestamp = 1000\<rparr>"

definition dai_borrowed :: state where
  "dai_borrowed = ledger (dai 1000 900) 7 \<lparr>supplied = 1000, borrowed = 900, lastUpdateTimestamp = 1000\<rparr>"

definition dai_year_later :: state where
  "dai_year_later = ledger (dai 1000 1799) 7
     \<lparr>supplied = 1000, borrowed = 1799, lastUpdateTimestamp = 31537000\<rparr>"

definition dai_liquidated :: state where
  "dai_liquidated = ledger (dai 10 50) 7
     \<lparr>supplied = 10, borrowed = 50, lastUpdateTimestamp = 1753000\<rparr>"

definition dai_paused :: state where
  "dai_paused = ledger (market 9000 9400 0 10000 1000 900 False) 7
     \<lparr>supplied = 1000, borrowed = 900, lastUpdateTimestamp = 1000\<rparr>"

definition dai_two :: state where
  "dai_two = ledger2 (dai 3000 900)
     7 \<lparr>supplied = 1000, borrowed = 900, lastUpdateTimestamp = 1000\<rparr>
     8 \<lparr>supplied = 2000, borrowed = 0, lastUpdateTimestamp = 1000\<rparr>"

definition dai_two_later :: state where
  "dai_two_later = ledger2 (dai 3001 2700)
     7 \<lparr>supplied = 1001, borrowed = 2700, lastUpdateTimestamp = 63073000\<rparr>
     8 \<lparr>supplied = 2000, borrowed = 0, lastUpdateTimestamp = 1000\<rparr>"

definition dai_two_withdrawn :: state where
  "dai_two_withdrawn = ledger2 (dai 1001 2700)
     7 \<lparr>supplied = 1001, borrowed = 2700, lastUpdateTimestamp = 63073000\<rparr>
     8 \<lparr>supplied = 0, borrowed = 0, lastUpdateTimestamp = 63073000\<rparr>"

definition lt_loose :: state where
  "lt_loose = listed (market 9000 20000 0 0 0 0 True)"

text \<open>
  The three products of a health check fit 256 bits (otherwise the check panics), and the
  comparison of the specification's \<open>isWithinLimit\<close>:
  \<open>supplied * price * thresholdBps / 10000 \<ge> borrowed * price\<close>, on natural numbers.
\<close>

definition health_fits :: "nat \<Rightarrow> nat \<Rightarrow> nat \<Rightarrow> nat \<Rightarrow> bool" where
  "health_fits supp borr price factor =
     (supp * price < 2 ^ 256 \<and> supp * price * factor < 2 ^ 256 \<and> borr * price < 2 ^ 256)"

definition within_limit :: "nat \<Rightarrow> nat \<Rightarrow> nat \<Rightarrow> nat \<Rightarrow> bool" where
  "within_limit supp borr price thresholdBps = (supp * price * thresholdBps div 10000 \<ge> borr * price)"




definition dai_accrued :: state where
  "dai_accrued = ledger (dai 1000 950) 7
     \<lparr>supplied = 1000, borrowed = 950, lastUpdateTimestamp = 1753000\<rparr>"

definition dai_still_healthy :: state where
  "dai_still_healthy = ledger (dai 1000 920) 7
     \<lparr>supplied = 1000, borrowed = 920, lastUpdateTimestamp = 701800\<rparr>"


text \<open>A savings market: supply rate 100 percent a year, no borrow interest.\<close>

definition sav :: "u256 \<Rightarrow> Asset" where
  "sav S = market 7500 8500 10000 0 S 0 True"

definition sav_listed :: state where
  "sav_listed = listed (sav 0)"

definition sav_before :: state where
  "sav_before = ledger (sav 100) 7 \<lparr>supplied = 100, borrowed = 0, lastUpdateTimestamp = 1000\<rparr>"

definition sav_accrued :: state where
  "sav_accrued = ledger (sav 200) 7
     \<lparr>supplied = 200, borrowed = 0, lastUpdateTimestamp = 31537000\<rparr>"

definition sav_mid :: state where
  "sav_mid = ledger (sav 250) 7
     \<lparr>supplied = 250, borrowed = 0, lastUpdateTimestamp = 31537000\<rparr>"

text \<open>
  The aggregate invariant of the specification for one asset, and the condition under
  which an accrual step keeps it: \<open>_updateInterest\<close> adds no more to \<open>totalBorrowed\<close>
  than to \<open>totalSupplied\<close>.
\<close>

definition solvent :: "state \<Rightarrow> string \<Rightarrow> bool" where
  "solvent s symbol = (totalBorrowed (assets s symbol) \<le> totalSupplied (assets s symbol))"

definition no_excess_borrow_interest :: "env \<Rightarrow> state \<Rightarrow> string \<Rightarrow> address \<Rightarrow> bool" where
  "no_excess_borrow_interest e s symbol user =
    (case updateInterest e symbol user s of
       Inl _ \<Rightarrow> True
     | Inr s1 \<Rightarrow>
         unat (totalBorrowed (assets s1 symbol)) - unat (totalBorrowed (assets s symbol))
           \<le> unat (totalSupplied (assets s1 symbol)) - unat (totalSupplied (assets s symbol)))"

section \<open>Checked arithmetic and the result monad\<close>

lemma bind_res_Inr: "bind_res r f = Inr y \<longleftrightarrow> (\<exists>x. r = Inr x \<and> f x = Inr y)"
  by (cases r) (simp_all add: bind_res_def)

lemma bind_res_Inl: "bind_res r f = Inl err \<longleftrightarrow> r = Inl err \<or> (\<exists>x. r = Inr x \<and> f x = Inl err)"
  by (cases r) (simp_all add: bind_res_def)

lemma bind_res_simps [simp]: "bind_res (Inl err) f = Inl err" "bind_res (Inr x) f = f x"
  by (simp_all add: bind_res_def)

lemma unat_add_fits: "unat a + unat b < 2 ^ 256 \<Longrightarrow> unat (a + b :: u256) = unat a + unat b"
  using unat_add_lem [of a b] by simp

lemma unat_mul_fits: "unat a * unat b < 2 ^ 256 \<Longrightarrow> unat (a * b :: u256) = unat a * unat b"
  using unat_mult_lem [of a b] by simp

lemma chk_add_unat: "chk_add a b = Inr c \<Longrightarrow> unat a + unat b < 2 ^ 256 \<and> unat c = unat a + unat b"
  unfolding chk_add_def using unat_add_fits [of a b] by (auto split: if_splits)

lemma chk_sub_unat: "chk_sub a b = Inr c \<Longrightarrow> unat b \<le> unat a \<and> unat c = unat a - unat b"
  unfolding chk_sub_def by (auto simp: unat_sub word_le_nat_alt split: if_splits)

lemma chk_mul_unat: "chk_mul a b = Inr c \<Longrightarrow> unat a * unat b < 2 ^ 256 \<and> unat c = unat a * unat b"
  unfolding chk_mul_def using unat_mul_fits [of a b] by (auto split: if_splits)

lemma chk_div_unat: "chk_div a b = Inr c \<Longrightarrow> b \<noteq> 0 \<and> unat c = unat a div unat b"
  unfolding chk_div_def by (auto simp: unat_div split: if_splits)

lemma chk_errors: "chk_add a b = Inl err \<Longrightarrow> err = Panic" "chk_sub a b = Inl err \<Longrightarrow> err = Panic"
  "chk_mul a b = Inl err \<Longrightarrow> err = Panic" "chk_div a b = Inl err \<Longrightarrow> err = Panic"
  by (auto simp: chk_add_def chk_sub_def chk_mul_def chk_div_def split: if_splits)

lemma interest_of_unat:
  assumes "interest_of b r t = Inr i"
  shows "unat b * unat r * unat t < 2 ^ 256 \<and> unat i = unat b * unat r * unat t div 315360000000"
proof -
  from assms obtain x y where x: "chk_mul b r = Inr x" and y: "chk_mul x t = Inr y"
    and i: "chk_div y 315360000000 = Inr i"
    by (auto simp: interest_of_def bind_res_Inr)
  from chk_mul_unat [OF x] chk_mul_unat [OF y] chk_div_unat [OF i]
  show ?thesis by simp
qed

section \<open>Shape of the accrual step\<close>

lemma unat_u256_bound: "unat (w :: u256) < 2 ^ 256"
  using unsigned_less [of w, where 'a = nat] by simp

lemma touch_same:
  "touch s symbol user (totalSupplied (assets s symbol)) (totalBorrowed (assets s symbol))
     (userPositions s user symbol) = s"
  by (simp add: touch_def)

lemma touch_touch:
  "touch (touch s symbol user S B p) symbol user S' B' p' = touch s symbol user S' B' p'"
  by (simp add: touch_def)

lemma touch_proj [simp]:
  "assets (touch s symbol user S B p) x =
     (if x = symbol then (assets s symbol)\<lparr>totalSupplied := S, totalBorrowed := B\<rparr> else assets s x)"
  "userPositions (touch s symbol user S B p) v x =
     (if v = user \<and> x = symbol then p else userPositions s v x)"
  "assetSymbols (touch s symbol user S B p) = assetSymbols s"
  by (simp_all add: touch_def)

lemma set_position_touch:
  "set_position s user symbol p =
     touch s symbol user (totalSupplied (assets s symbol)) (totalBorrowed (assets s symbol)) p"
  by (simp add: touch_def set_position_def)

lemma set_asset_touch:
  "set_asset s symbol ((assets s symbol)\<lparr>totalSupplied := S\<rparr>) =
     touch s symbol user S (totalBorrowed (assets s symbol)) (userPositions s user symbol)"
  "set_asset s symbol ((assets s symbol)\<lparr>totalBorrowed := B\<rparr>) =
     touch s symbol user (totalSupplied (assets s symbol)) B (userPositions s user symbol)"
  by (simp_all add: touch_def set_asset_def)

lemma accrue_supply_shape:
  assumes "accrue_supply symbol user t s = Inr s1"
  shows "\<exists>si. s1 = touch s symbol user (totalSupplied (assets s symbol) + si)
             (totalBorrowed (assets s symbol))
             ((userPositions s user symbol)\<lparr>supplied := supplied (userPositions s user symbol) + si\<rparr>)
     \<and> unat si = spec_interest (unat (supplied (userPositions s user symbol)))
           (unat (supplyInterestRate (assets s symbol))) (unat t)
     \<and> unat (supplied (userPositions s user symbol)) + unat si < 2 ^ 256
     \<and> unat (totalSupplied (assets s symbol)) + unat si < 2 ^ 256"
proof (cases "supplied (userPositions s user symbol) > 0")
  case False
  then have z: "unat (supplied (userPositions s user symbol)) = 0" by (simp add: word_gt_0)
  from False assms have "s1 = s" by (simp add: accrue_supply_def)
  then have "s1 = touch s symbol user (totalSupplied (assets s symbol) + 0)
             (totalBorrowed (assets s symbol))
             ((userPositions s user symbol)\<lparr>supplied := supplied (userPositions s user symbol) + 0\<rparr>)"
    by (simp add: touch_same)
  moreover have "unat (0::u256) = spec_interest (unat (supplied (userPositions s user symbol)))
           (unat (supplyInterestRate (assets s symbol))) (unat t)"
    by (simp add: z spec_interest_def)
  moreover have "unat (supplied (userPositions s user symbol)) + unat (0::u256) < 2 ^ 256"
    "unat (totalSupplied (assets s symbol)) + unat (0::u256) < 2 ^ 256"
    using unat_u256_bound by simp_all
  ultimately show ?thesis by blast
next
  case True
  with assms obtain i x y where i: "interest_of (supplied (userPositions s user symbol))
        (supplyInterestRate (assets s symbol)) t = Inr i"
    and x: "chk_add (supplied (userPositions s user symbol)) i = Inr x"
    and y: "chk_add (totalSupplied (assets s symbol)) i = Inr y"
    and s1: "s1 = set_asset (set_position s user symbol ((userPositions s user symbol)\<lparr>supplied := x\<rparr>))
              symbol ((assets s symbol)\<lparr>totalSupplied := y\<rparr>)"
    by (auto simp: accrue_supply_def Let_def bind_res_Inr)
  from x have x': "x = supplied (userPositions s user symbol) + i" by (auto simp: chk_add_def split: if_splits)
  from y have y': "y = totalSupplied (assets s symbol) + i" by (auto simp: chk_add_def split: if_splits)
  have "s1 = touch s symbol user (totalSupplied (assets s symbol) + i)
             (totalBorrowed (assets s symbol))
             ((userPositions s user symbol)\<lparr>supplied := supplied (userPositions s user symbol) + i\<rparr>)"
    by (simp add: s1 x' y' set_asset_def set_position_def touch_def)
  then show ?thesis
    using interest_of_unat [OF i] chk_add_unat [OF x] chk_add_unat [OF y]
    by (intro exI [of _ i]) (simp add: spec_interest_def)
qed

lemma accrue_borrow_shape:
  assumes "accrue_borrow symbol user t s = Inr s1"
  shows "\<exists>bi. s1 = touch s symbol user (totalSupplied (assets s symbol))
             (totalBorrowed (assets s symbol) + bi)
             ((userPositions s user symbol)\<lparr>borrowed := borrowed (userPositions s user symbol) + bi\<rparr>)
     \<and> unat bi = spec_interest (unat (borrowed (userPositions s user symbol)))
           (unat (borrowInterestRate (assets s symbol))) (unat t)
     \<and> unat (borrowed (userPositions s user symbol)) + unat bi < 2 ^ 256
     \<and> unat (totalBorrowed (assets s symbol)) + unat bi < 2 ^ 256"
proof (cases "borrowed (userPositions s user symbol) > 0")
  case False
  then have z: "unat (borrowed (userPositions s user symbol)) = 0" by (simp add: word_gt_0)
  from False assms have "s1 = s" by (simp add: accrue_borrow_def)
  then have "s1 = touch s symbol user (totalSupplied (assets s symbol))
             (totalBorrowed (assets s symbol) + 0)
             ((userPositions s user symbol)\<lparr>borrowed := borrowed (userPositions s user symbol) + 0\<rparr>)"
    by (simp add: touch_same)
  moreover have "unat (0::u256) = spec_interest (unat (borrowed (userPositions s user symbol)))
           (unat (borrowInterestRate (assets s symbol))) (unat t)"
    by (simp add: z spec_interest_def)
  moreover have "unat (borrowed (userPositions s user symbol)) + unat (0::u256) < 2 ^ 256"
    "unat (totalBorrowed (assets s symbol)) + unat (0::u256) < 2 ^ 256"
    using unat_u256_bound by simp_all
  ultimately show ?thesis by blast
next
  case True
  with assms obtain i x y where i: "interest_of (borrowed (userPositions s user symbol))
        (borrowInterestRate (assets s symbol)) t = Inr i"
    and x: "chk_add (borrowed (userPositions s user symbol)) i = Inr x"
    and y: "chk_add (totalBorrowed (assets s symbol)) i = Inr y"
    and s1: "s1 = set_asset (set_position s user symbol ((userPositions s user symbol)\<lparr>borrowed := x\<rparr>))
              symbol ((assets s symbol)\<lparr>totalBorrowed := y\<rparr>)"
    by (auto simp: accrue_borrow_def Let_def bind_res_Inr)
  from x have x': "x = borrowed (userPositions s user symbol) + i" by (auto simp: chk_add_def split: if_splits)
  from y have y': "y = totalBorrowed (assets s symbol) + i" by (auto simp: chk_add_def split: if_splits)
  have "s1 = touch s symbol user (totalSupplied (assets s symbol))
             (totalBorrowed (assets s symbol) + i)
             ((userPositions s user symbol)\<lparr>borrowed := borrowed (userPositions s user symbol) + i\<rparr>)"
    by (simp add: s1 x' y' set_asset_def set_position_def touch_def)
  then show ?thesis
    using interest_of_unat [OF i] chk_add_unat [OF x] chk_add_unat [OF y]
    by (intro exI [of _ i]) (simp add: spec_interest_def)
qed

lemma updateInterest_shape:
  assumes "updateInterest e symbol user s = Inr s'"
  shows "\<exists>si bi. s' = touch s symbol user (totalSupplied (assets s symbol) + si)
             (totalBorrowed (assets s symbol) + bi)
             \<lparr>supplied = supplied (userPositions s user symbol) + si,
              borrowed = borrowed (userPositions s user symbol) + bi,
              lastUpdateTimestamp = block_timestamp e\<rparr>
     \<and> unat (supplied (userPositions s user symbol)) + unat si < 2 ^ 256
     \<and> unat (totalSupplied (assets s symbol)) + unat si < 2 ^ 256
     \<and> unat (borrowed (userPositions s user symbol)) + unat bi < 2 ^ 256
     \<and> unat (totalBorrowed (assets s symbol)) + unat bi < 2 ^ 256
     \<and> (if lastUpdateTimestamp (userPositions s user symbol) = 0
            \<or> block_timestamp e = lastUpdateTimestamp (userPositions s user symbol)
         then si = 0 \<and> bi = 0
         else unat (lastUpdateTimestamp (userPositions s user symbol)) < unat (block_timestamp e)
           \<and> unat si = spec_interest (unat (supplied (userPositions s user symbol)))
                 (unat (supplyInterestRate (assets s symbol)))
                 (unat (block_timestamp e) - unat (lastUpdateTimestamp (userPositions s user symbol)))
           \<and> unat bi = spec_interest (unat (borrowed (userPositions s user symbol)))
                 (unat (borrowInterestRate (assets s symbol)))
                 (unat (block_timestamp e) - unat (lastUpdateTimestamp (userPositions s user symbol))))"
  (is "\<exists>si bi. ?P si bi")
proof -
  let ?p = "userPositions s user symbol"
  let ?a = "assets s symbol"
  have bounds0: "unat (supplied ?p) + unat (0::u256) < 2 ^ 256"
    "unat (totalSupplied ?a) + unat (0::u256) < 2 ^ 256"
    "unat (borrowed ?p) + unat (0::u256) < 2 ^ 256"
    "unat (totalBorrowed ?a) + unat (0::u256) < 2 ^ 256"
    using unat_u256_bound by simp_all
  show ?thesis
  proof (cases "lastUpdateTimestamp ?p = 0")
    case True
    with assms have "s' = set_position s user symbol (?p\<lparr>lastUpdateTimestamp := block_timestamp e\<rparr>)"
      by (simp add: updateInterest_def)
    then have "s' = touch s symbol user (totalSupplied ?a + 0) (totalBorrowed ?a + 0)
             \<lparr>supplied = supplied ?p + 0, borrowed = borrowed ?p + 0,
              lastUpdateTimestamp = block_timestamp e\<rparr>"
      by (cases ?p) (simp add: set_position_touch)
    with True bounds0 have "?P 0 0" by simp
    then show ?thesis by blast
  next
    case nz: False
    with assms obtain t where t: "chk_sub (block_timestamp e) (lastUpdateTimestamp ?p) = Inr t"
      and rest: "(if t = 0 then Inr s
           else bind_res (accrue_supply symbol user t s) (\<lambda>s1.
                bind_res (accrue_borrow symbol user t s1) (\<lambda>s2.
                Inr (set_position s2 user symbol
                  ((userPositions s2 user symbol)\<lparr>lastUpdateTimestamp := block_timestamp e\<rparr>))))) = Inr s'"
      by (auto simp: updateInterest_def Let_def bind_res_Inr)
    from chk_sub_unat [OF t] have le: "unat (lastUpdateTimestamp ?p) \<le> unat (block_timestamp e)"
      and tv: "unat t = unat (block_timestamp e) - unat (lastUpdateTimestamp ?p)" by simp_all
    show ?thesis
    proof (cases "t = 0")
      case True
      with tv le have "unat (block_timestamp e) = unat (lastUpdateTimestamp ?p)" by simp
      then have eq: "block_timestamp e = lastUpdateTimestamp ?p" by (simp add: word_unat_eq_iff)
      from True rest have "s' = s" by simp
      then have "s' = touch s symbol user (totalSupplied ?a + 0) (totalBorrowed ?a + 0)
             \<lparr>supplied = supplied ?p + 0, borrowed = borrowed ?p + 0,
              lastUpdateTimestamp = block_timestamp e\<rparr>"
        using touch_same [of s symbol user] by (cases ?p) (simp add: eq)
      with eq bounds0 have "?P 0 0" by simp
      then show ?thesis by blast
    next
      case tnz: False
      then have "unat t \<noteq> 0" by (simp add: unat_eq_0)
      with tv have lt: "unat (lastUpdateTimestamp ?p) < unat (block_timestamp e)" by simp
      then have ne: "block_timestamp e \<noteq> lastUpdateTimestamp ?p" by auto
      from tnz rest obtain s1 s2 where s1: "accrue_supply symbol user t s = Inr s1"
        and s2: "accrue_borrow symbol user t s1 = Inr s2"
        and s': "s' = set_position s2 user symbol
                  ((userPositions s2 user symbol)\<lparr>lastUpdateTimestamp := block_timestamp e\<rparr>)"
        by (auto simp: bind_res_Inr)
      from accrue_supply_shape [OF s1] obtain si where
        s1eq: "s1 = touch s symbol user (totalSupplied ?a + si) (totalBorrowed ?a)
                 (?p\<lparr>supplied := supplied ?p + si\<rparr>)"
        and si: "unat si = spec_interest (unat (supplied ?p)) (unat (supplyInterestRate ?a)) (unat t)"
        and sb: "unat (supplied ?p) + unat si < 2 ^ 256" "unat (totalSupplied ?a) + unat si < 2 ^ 256"
        by blast
      from accrue_borrow_shape [OF s2] obtain bi where
        s2eq: "s2 = touch s1 symbol user (totalSupplied (assets s1 symbol))
                 (totalBorrowed (assets s1 symbol) + bi)
                 ((userPositions s1 user symbol)\<lparr>borrowed := borrowed (userPositions s1 user symbol) + bi\<rparr>)"
        and bi: "unat bi = spec_interest (unat (borrowed (userPositions s1 user symbol)))
                   (unat (borrowInterestRate (assets s1 symbol))) (unat t)"
        and bb: "unat (borrowed (userPositions s1 user symbol)) + unat bi < 2 ^ 256"
           "unat (totalBorrowed (assets s1 symbol)) + unat bi < 2 ^ 256"
        by blast
      have "s' = touch s symbol user (totalSupplied ?a + si) (totalBorrowed ?a + bi)
             \<lparr>supplied = supplied ?p + si, borrowed = borrowed ?p + bi,
              lastUpdateTimestamp = block_timestamp e\<rparr>"
        unfolding s' s2eq s1eq by (cases ?p) (simp add: set_position_touch touch_touch)
      moreover from bi bb have "unat bi = spec_interest (unat (borrowed ?p)) (unat (borrowInterestRate ?a)) (unat t)"
         "unat (borrowed ?p) + unat bi < 2 ^ 256" "unat (totalBorrowed ?a) + unat bi < 2 ^ 256"
        by (simp_all add: s1eq)
      ultimately have "?P si bi" using nz ne lt si sb tv by simp
      then show ?thesis by blast
    qed
  qed
qed

lemma interest_of_total:
  assumes "unat b * unat r * unat t < 2 ^ 256" and "t \<noteq> 0"
  shows "\<exists>i. interest_of b r t = Inr i"
proof -
  from assms(2) have "unat t \<noteq> 0" by (simp add: unat_eq_0)
  then have "1 \<le> unat t" by simp
  then have "unat b * unat r * 1 \<le> unat b * unat r * unat t" by (rule mult_le_mono2)
  then have "unat b * unat r \<le> unat b * unat r * unat t" by (simp only: mult_1_right)
  then have br: "unat b * unat r < 2 ^ 256" using assms(1) by (rule le_less_trans)
  then have "unat (b * r) = unat b * unat r" by (rule unat_mul_fits)
  with assms(1) br show ?thesis
    by (simp add: interest_of_def chk_mul_def chk_div_def)
qed

lemma accrue_supply_total:
  assumes "t \<noteq> 0"
    and "unat (supplied (userPositions s user symbol)) * unat (supplyInterestRate (assets s symbol)) * unat t < 2 ^ 256"
    and "unat (supplied (userPositions s user symbol)) +
           spec_interest (unat (supplied (userPositions s user symbol)))
             (unat (supplyInterestRate (assets s symbol))) (unat t) < 2 ^ 256"
    and "unat (totalSupplied (assets s symbol)) +
           spec_interest (unat (supplied (userPositions s user symbol)))
             (unat (supplyInterestRate (assets s symbol))) (unat t) < 2 ^ 256"
  shows "\<exists>s1. accrue_supply symbol user t s = Inr s1"
proof -
  from interest_of_total [OF assms(2) assms(1)] obtain i where
    i: "interest_of (supplied (userPositions s user symbol)) (supplyInterestRate (assets s symbol)) t = Inr i"
    by blast
  from interest_of_unat [OF i] have "unat i = spec_interest (unat (supplied (userPositions s user symbol)))
             (unat (supplyInterestRate (assets s symbol))) (unat t)"
    by (simp add: spec_interest_def)
  with assms(3,4) i show ?thesis
    by (simp add: accrue_supply_def Let_def chk_add_def)
qed

lemma accrue_borrow_total:
  assumes "t \<noteq> 0"
    and "unat (borrowed (userPositions s user symbol)) * unat (borrowInterestRate (assets s symbol)) * unat t < 2 ^ 256"
    and "unat (borrowed (userPositions s user symbol)) +
           spec_interest (unat (borrowed (userPositions s user symbol)))
             (unat (borrowInterestRate (assets s symbol))) (unat t) < 2 ^ 256"
    and "unat (totalBorrowed (assets s symbol)) +
           spec_interest (unat (borrowed (userPositions s user symbol)))
             (unat (borrowInterestRate (assets s symbol))) (unat t) < 2 ^ 256"
  shows "\<exists>s1. accrue_borrow symbol user t s = Inr s1"
proof -
  from interest_of_total [OF assms(2) assms(1)] obtain i where
    i: "interest_of (borrowed (userPositions s user symbol)) (borrowInterestRate (assets s symbol)) t = Inr i"
    by blast
  from interest_of_unat [OF i] have "unat i = spec_interest (unat (borrowed (userPositions s user symbol)))
             (unat (borrowInterestRate (assets s symbol))) (unat t)"
    by (simp add: spec_interest_def)
  with assms(3,4) i show ?thesis
    by (simp add: accrue_borrow_def Let_def chk_add_def)
qed

lemma updateInterest_total:
  assumes nz: "lastUpdateTimestamp (userPositions s user symbol) \<noteq> 0"
    and lt: "unat (lastUpdateTimestamp (userPositions s user symbol)) < unat (block_timestamp e)"
    and fits: "accrual_fits e s symbol user"
  shows "\<exists>s'. updateInterest e symbol user s = Inr s'"
proof -
  let ?p = "userPositions s user symbol"
  let ?a = "assets s symbol"
  let ?t = "block_timestamp e - lastUpdateTimestamp ?p"
  from lt have t: "chk_sub (block_timestamp e) (lastUpdateTimestamp ?p) = Inr ?t"
    by (simp add: chk_sub_def)
  from chk_sub_unat [OF t] have tv: "unat ?t = unat (block_timestamp e) - unat (lastUpdateTimestamp ?p)"
    by simp
  with lt have tnz: "?t \<noteq> 0" by (metis unat_eq_0 zero_less_diff less_numeral_extra(3))
  from fits have f: "unat (supplied ?p) * unat (supplyInterestRate ?a) * unat ?t < 2 ^ 256"
    "unat (borrowed ?p) * unat (borrowInterestRate ?a) * unat ?t < 2 ^ 256"
    "unat (supplied ?p) + spec_interest (unat (supplied ?p)) (unat (supplyInterestRate ?a)) (unat ?t) < 2 ^ 256"
    "unat (totalSupplied ?a) + spec_interest (unat (supplied ?p)) (unat (supplyInterestRate ?a)) (unat ?t) < 2 ^ 256"
    "unat (borrowed ?p) + spec_interest (unat (borrowed ?p)) (unat (borrowInterestRate ?a)) (unat ?t) < 2 ^ 256"
    "unat (totalBorrowed ?a) + spec_interest (unat (borrowed ?p)) (unat (borrowInterestRate ?a)) (unat ?t) < 2 ^ 256"
    unfolding accrual_fits_def Let_def tv by simp_all
  from accrue_supply_total [OF tnz f(1) f(3) f(4)] obtain s1 where
    s1: "accrue_supply symbol user ?t s = Inr s1" by blast
  from accrue_supply_shape [OF s1] obtain si where
    s1eq: "s1 = touch s symbol user (totalSupplied ?a + si) (totalBorrowed ?a)
                 (?p\<lparr>supplied := supplied ?p + si\<rparr>)" by blast
  have "\<exists>s2. accrue_borrow symbol user ?t s1 = Inr s2"
    using f by (intro accrue_borrow_total [OF tnz]) (simp_all add: s1eq)
  then obtain s2 where s2: "accrue_borrow symbol user ?t s1 = Inr s2" by blast
  show ?thesis
    using nz t tnz s1 s2 by (simp add: updateInterest_def Let_def)
qed

lemmas demo_defs = world_def market_def ledger_def zero_asset_def zero_position_def

section \<open>Interest accrual\<close>

text \<open>
  Claim C8. \<open>_updateInterest\<close> follows the specified algorithm: an unset
  \<open>lastUpdateTimestamp\<close> (0) is set to the block time and nothing else changes; with no
  time elapsed the storage is returned as it is; otherwise, when the accrual fits 256 bits
  the call returns, and whenever it returns,
  \<open>floor(supplied * supplyRate * elapsed / (10000 * 365 days))\<close> has been added to the
  position's \<open>supplied\<close> and to \<open>totalSupplied\<close>, the same with the borrow rate to
  \<open>borrowed\<close> and \<open>totalBorrowed\<close>, and \<open>lastUpdateTimestamp\<close> is the block time.
\<close>

theorem accrual_follows_spec:
  "(lastUpdateTimestamp (userPositions s user symbol) = 0 \<longrightarrow>
      updateInterest e symbol user s =
        Inr (set_position s user symbol
               ((userPositions s user symbol)\<lparr>lastUpdateTimestamp := block_timestamp e\<rparr>)))
   \<and> (lastUpdateTimestamp (userPositions s user symbol) \<noteq> 0
        \<and> block_timestamp e = lastUpdateTimestamp (userPositions s user symbol) \<longrightarrow>
      updateInterest e symbol user s = Inr s)
   \<and> (lastUpdateTimestamp (userPositions s user symbol) \<noteq> 0
        \<and> unat (lastUpdateTimestamp (userPositions s user symbol)) < unat (block_timestamp e)
        \<and> accrual_fits e s symbol user \<longrightarrow>
      (\<exists>s1. updateInterest e symbol user s = Inr s1))
   \<and> (lastUpdateTimestamp (userPositions s user symbol) \<noteq> 0
        \<and> block_timestamp e \<noteq> lastUpdateTimestamp (userPositions s user symbol)
        \<and> updateInterest e symbol user s = Inr s' \<longrightarrow>
      unat (supplied (userPositions s' user symbol)) =
        unat (supplied (userPositions s user symbol)) +
        spec_interest (unat (supplied (userPositions s user symbol)))
          (unat (supplyInterestRate (assets s symbol)))
          (unat (block_timestamp e) - unat (lastUpdateTimestamp (userPositions s user symbol)))
      \<and> unat (totalSupplied (assets s' symbol)) =
        unat (totalSupplied (assets s symbol)) +
        spec_interest (unat (supplied (userPositions s user symbol)))
          (unat (supplyInterestRate (assets s symbol)))
          (unat (block_timestamp e) - unat (lastUpdateTimestamp (userPositions s user symbol)))
      \<and> unat (borrowed (userPositions s' user symbol)) =
        unat (borrowed (userPositions s user symbol)) +
        spec_interest (unat (borrowed (userPositions s user symbol)))
          (unat (borrowInterestRate (assets s symbol)))
          (unat (block_timestamp e) - unat (lastUpdateTimestamp (userPositions s user symbol)))
      \<and> unat (totalBorrowed (assets s' symbol)) =
        unat (totalBorrowed (assets s symbol)) +
        spec_interest (unat (borrowed (userPositions s user symbol)))
          (unat (borrowInterestRate (assets s symbol)))
          (unat (block_timestamp e) - unat (lastUpdateTimestamp (userPositions s user symbol)))
      \<and> lastUpdateTimestamp (userPositions s' user symbol) = block_timestamp e)"
proof (intro conjI impI)
  assume "lastUpdateTimestamp (userPositions s user symbol) = 0"
  then show "updateInterest e symbol user s =
        Inr (set_position s user symbol
               ((userPositions s user symbol)\<lparr>lastUpdateTimestamp := block_timestamp e\<rparr>))"
    by (simp add: updateInterest_def)
next
  assume "lastUpdateTimestamp (userPositions s user symbol) \<noteq> 0
        \<and> block_timestamp e = lastUpdateTimestamp (userPositions s user symbol)"
  then show "updateInterest e symbol user s = Inr s"
    by (simp add: updateInterest_def chk_sub_def)
next
  assume "lastUpdateTimestamp (userPositions s user symbol) \<noteq> 0
        \<and> unat (lastUpdateTimestamp (userPositions s user symbol)) < unat (block_timestamp e)
        \<and> accrual_fits e s symbol user"
  then show "\<exists>s1. updateInterest e symbol user s = Inr s1"
    using updateInterest_total by blast
next
  assume h: "lastUpdateTimestamp (userPositions s user symbol) \<noteq> 0
        \<and> block_timestamp e \<noteq> lastUpdateTimestamp (userPositions s user symbol)
        \<and> updateInterest e symbol user s = Inr s'"
  then have u: "updateInterest e symbol user s = Inr s'" by simp
  from updateInterest_shape [OF u] h obtain si bi where
    s': "s' = touch s symbol user (totalSupplied (assets s symbol) + si)
             (totalBorrowed (assets s symbol) + bi)
             \<lparr>supplied = supplied (userPositions s user symbol) + si,
              borrowed = borrowed (userPositions s user symbol) + bi,
              lastUpdateTimestamp = block_timestamp e\<rparr>"
    and b: "unat (supplied (userPositions s user symbol)) + unat si < 2 ^ 256"
      "unat (totalSupplied (assets s symbol)) + unat si < 2 ^ 256"
      "unat (borrowed (userPositions s user symbol)) + unat bi < 2 ^ 256"
      "unat (totalBorrowed (assets s symbol)) + unat bi < 2 ^ 256"
    and i: "unat si = spec_interest (unat (supplied (userPositions s user symbol)))
                 (unat (supplyInterestRate (assets s symbol)))
                 (unat (block_timestamp e) - unat (lastUpdateTimestamp (userPositions s user symbol)))"
       "unat bi = spec_interest (unat (borrowed (userPositions s user symbol)))
                 (unat (borrowInterestRate (assets s symbol)))
                 (unat (block_timestamp e) - unat (lastUpdateTimestamp (userPositions s user symbol)))"
    by auto
  show "unat (supplied (userPositions s' user symbol)) =
        unat (supplied (userPositions s user symbol)) +
        spec_interest (unat (supplied (userPositions s user symbol)))
          (unat (supplyInterestRate (assets s symbol)))
          (unat (block_timestamp e) - unat (lastUpdateTimestamp (userPositions s user symbol)))"
    using unat_add_fits [OF b(1)] i(1) by (simp add: s')
  show "unat (totalSupplied (assets s' symbol)) =
        unat (totalSupplied (assets s symbol)) +
        spec_interest (unat (supplied (userPositions s user symbol)))
          (unat (supplyInterestRate (assets s symbol)))
          (unat (block_timestamp e) - unat (lastUpdateTimestamp (userPositions s user symbol)))"
    using unat_add_fits [OF b(2)] i(1) by (simp add: s')
  show "unat (borrowed (userPositions s' user symbol)) =
        unat (borrowed (userPositions s user symbol)) +
        spec_interest (unat (borrowed (userPositions s user symbol)))
          (unat (borrowInterestRate (assets s symbol)))
          (unat (block_timestamp e) - unat (lastUpdateTimestamp (userPositions s user symbol)))"
    using unat_add_fits [OF b(3)] i(2) by (simp add: s')
  show "unat (totalBorrowed (assets s' symbol)) =
        unat (totalBorrowed (assets s symbol)) +
        spec_interest (unat (borrowed (userPositions s user symbol)))
          (unat (borrowInterestRate (assets s symbol)))
          (unat (block_timestamp e) - unat (lastUpdateTimestamp (userPositions s user symbol)))"
    using unat_add_fits [OF b(4)] i(2) by (simp add: s')
  show "lastUpdateTimestamp (userPositions s' user symbol) = block_timestamp e"
    by (simp add: s')
qed

lemmas pool_defs = pool_def pool_fresh_def pool_old_def pool_new_def

lemma accrual_demo:
  "updateInterest (world 7 31537000) ''DAI'' 7 pool_old = Inr pool_new"
  by (simp add: demo_defs pool_defs updateInterest_def accrue_supply_def accrue_borrow_def interest_of_def
        chk_add_def chk_sub_def chk_mul_def chk_div_def set_asset_def set_position_def Let_def)

theorem accrual_follows_spec_witness:
  "updateInterest (world 7 31537000) ''DAI'' 7 pool_fresh =
     Inr (ledger pool 7 \<lparr>supplied = 1000, borrowed = 0, lastUpdateTimestamp = 31537000\<rparr>)
   \<and> updateInterest (world 7 1000) ''DAI'' 7 pool_old = Inr pool_old
   \<and> (\<exists>s1. updateInterest (world 7 31537000) ''DAI'' 7 pool_old = Inr s1)
   \<and> unat (supplied (userPositions pool_new 7 ''DAI'')) = 1000 + spec_interest 1000 500 31536000
   \<and> unat (totalSupplied (assets pool_new ''DAI'')) = 1000 + spec_interest 1000 500 31536000
   \<and> unat (borrowed (userPositions pool_new 7 ''DAI'')) = 500 + spec_interest 500 1000 31536000
   \<and> unat (totalBorrowed (assets pool_new ''DAI'')) = 500 + spec_interest 500 1000 31536000"
proof -
  have fits: "accrual_fits (world 7 31537000) pool_old ''DAI'' 7"
    by (simp add: accrual_fits_def demo_defs pool_defs spec_interest_def)
  have A: "updateInterest (world 7 31537000) ''DAI'' 7 pool_fresh =
      Inr (ledger pool 7 \<lparr>supplied = 1000, borrowed = 0, lastUpdateTimestamp = 31537000\<rparr>)"
    using accrual_follows_spec [of pool_fresh 7 "''DAI''" "world 7 31537000"]
    by (simp add: demo_defs pool_defs set_position_def)
  have B: "updateInterest (world 7 1000) ''DAI'' 7 pool_old = Inr pool_old"
    using accrual_follows_spec [of pool_old 7 "''DAI''" "world 7 1000"]
    by (simp add: demo_defs pool_defs)
  have C: "\<exists>s1. updateInterest (world 7 31537000) ''DAI'' 7 pool_old = Inr s1"
    using accrual_follows_spec [of pool_old 7 "''DAI''" "world 7 31537000"] fits
    by (simp add: demo_defs pool_defs)
  have D: "unat (supplied (userPositions pool_new 7 ''DAI'')) = 1000 + spec_interest 1000 500 31536000
   \<and> unat (totalSupplied (assets pool_new ''DAI'')) = 1000 + spec_interest 1000 500 31536000
   \<and> unat (borrowed (userPositions pool_new 7 ''DAI'')) = 500 + spec_interest 500 1000 31536000
   \<and> unat (totalBorrowed (assets pool_new ''DAI'')) = 500 + spec_interest 500 1000 31536000"
    using accrual_follows_spec [of pool_old 7 "''DAI''" "world 7 31537000" pool_new] accrual_demo
    by (simp add: demo_defs pool_defs)
  from A B C D show ?thesis by simp
qed

section \<open>Shape of the balance-changing calls\<close>

lemma call_token_Inr: "call_token r err = Inr x \<longleftrightarrow> r = Some True"
  by (auto simp: call_token_def split: option.splits)

lemma set_position_proj [simp]:
  "assets (set_position s user symbol p) = assets s"
  "assetSymbols (set_position s user symbol p) = assetSymbols s"
  "userPositions (set_position s user symbol p) v x =
     (if v = user \<and> x = symbol then p else userPositions s v x)"
  by (simp_all add: set_position_def)

lemma set_asset_proj [simp]:
  "assets (set_asset s symbol a) x = (if x = symbol then a else assets s x)"
  "assetSymbols (set_asset s symbol a) = assetSymbols s"
  "userPositions (set_asset s symbol a) = userPositions s"
  by (simp_all add: set_asset_def)

lemma write_supplied:
  "set_asset (set_position s user symbol P) symbol
     ((assets s symbol)\<lparr>totalSupplied := S\<rparr>) =
   touch s symbol user S (totalBorrowed (assets s symbol)) P"
  by (simp add: set_asset_def set_position_def touch_def)

lemma write_borrowed:
  "set_asset (set_position s user symbol P) symbol
     ((assets s symbol)\<lparr>totalBorrowed := B\<rparr>) =
   touch s symbol user (totalSupplied (assets s symbol)) B P"
  by (simp add: set_asset_def set_position_def touch_def)

lemma write_both:
  "set_asset (set_position s user symbol P) symbol
     ((assets s symbol)\<lparr>totalBorrowed := B, totalSupplied := S\<rparr>) =
   touch s symbol user S B P"
  by (cases "assets s symbol") (simp add: set_asset_def set_position_def touch_def)

lemma chk_add_eq: "chk_add a b = Inr c \<Longrightarrow> c = a + b"
  by (auto simp: chk_add_def split: if_splits)

lemma chk_sub_eq: "chk_sub a b = Inr c \<Longrightarrow> c = a - b"
  by (auto simp: chk_sub_def split: if_splits)

lemma supply_shape:
  assumes "supply_fn e s symbol amount = Inr s'"
  shows "isActive (assets s symbol) \<and> 0 < amount \<and>
    (\<exists>s1. updateInterest e symbol (msg_sender e) s = Inr s1
      \<and> token_transferFrom e (tokenAddress (assets s1 symbol)) (msg_sender e) amount = Some True
      \<and> unat (supplied (userPositions s1 (msg_sender e) symbol)) + unat amount < 2 ^ 256
      \<and> unat (totalSupplied (assets s1 symbol)) + unat amount < 2 ^ 256
      \<and> s' = touch s1 symbol (msg_sender e)
           (totalSupplied (assets s1 symbol) + amount) (totalBorrowed (assets s1 symbol))
           ((userPositions s1 (msg_sender e) symbol)
              \<lparr>supplied := supplied (userPositions s1 (msg_sender e) symbol) + amount\<rparr>))"
proof -
  from assms have act: "isActive (assets s symbol)" and pos: "0 < amount"
    by (auto simp: supply_fn_def split: if_splits)
  with assms obtain s1 x y where s1: "updateInterest e symbol (msg_sender e) s = Inr s1"
    and tok: "token_transferFrom e (tokenAddress (assets s1 symbol)) (msg_sender e) amount = Some True"
    and x: "chk_add (supplied (userPositions s1 (msg_sender e) symbol)) amount = Inr x"
    and y: "chk_add (totalSupplied (assets s1 symbol)) amount = Inr y"
    and s': "s' = touch s1 symbol (msg_sender e) y (totalBorrowed (assets s1 symbol))
           ((userPositions s1 (msg_sender e) symbol)\<lparr>supplied := x\<rparr>)"
    by (auto simp: supply_fn_def bind_res_Inr call_token_Inr Let_def write_supplied)
  show ?thesis
    using act pos s1 tok chk_add_unat [OF x] chk_add_unat [OF y] chk_add_eq [OF x] chk_add_eq [OF y] s'
    by auto
qed

lemma withdraw_shape:
  assumes "withdraw e s symbol amount = Inr s'"
  shows "isActive (assets s symbol) \<and> 0 < amount
    \<and> amount \<le> supplied (userPositions s (msg_sender e) symbol) \<and>
    (\<exists>s1. updateInterest e symbol (msg_sender e) s = Inr s1
      \<and> unat amount \<le> unat (supplied (userPositions s1 (msg_sender e) symbol))
      \<and> checkHealthFactor e s1 symbol (msg_sender e)
            (supplied (userPositions s1 (msg_sender e) symbol) - amount)
            (borrowed (userPositions s1 (msg_sender e) symbol)) = Inr True
      \<and> unat amount \<le> unat (totalSupplied (assets s1 symbol))
      \<and> token_transfer e (tokenAddress (assets s1 symbol)) (msg_sender e) amount = Some True
      \<and> s' = touch s1 symbol (msg_sender e)
           (totalSupplied (assets s1 symbol) - amount) (totalBorrowed (assets s1 symbol))
           ((userPositions s1 (msg_sender e) symbol)
              \<lparr>supplied := supplied (userPositions s1 (msg_sender e) symbol) - amount\<rparr>))"
proof -
  from assms have act: "isActive (assets s symbol)" and pos: "0 < amount"
    and bal: "amount \<le> supplied (userPositions s (msg_sender e) symbol)"
    by (auto simp: withdraw_def split: if_splits)
  with assms obtain s1 x y where s1: "updateInterest e symbol (msg_sender e) s = Inr s1"
    and x: "chk_sub (supplied (userPositions s1 (msg_sender e) symbol)) amount = Inr x"
    and h: "checkHealthFactor e s1 symbol (msg_sender e) x
              (borrowed (userPositions s1 (msg_sender e) symbol)) = Inr True"
    and y: "chk_sub (totalSupplied (assets s1 symbol)) amount = Inr y"
    and tok: "token_transfer e (tokenAddress (assets s1 symbol)) (msg_sender e) amount = Some True"
    and s': "s' = touch s1 symbol (msg_sender e) y (totalBorrowed (assets s1 symbol))
           ((userPositions s1 (msg_sender e) symbol)\<lparr>supplied := x\<rparr>)"
    by (auto simp: withdraw_def bind_res_Inr call_token_Inr Let_def write_supplied
          split: if_splits)
  show ?thesis
    using act pos bal s1 tok h chk_sub_unat [OF x] chk_sub_unat [OF y] chk_sub_eq [OF x]
      chk_sub_eq [OF y] s'
    by auto
qed

lemma borrow_shape:
  assumes "borrow e s symbol amount = Inr s'"
  shows "isActive (assets s symbol) \<and> 0 < amount
    \<and> unat (totalBorrowed (assets s symbol)) \<le> unat (totalSupplied (assets s symbol))
    \<and> unat amount \<le> unat (totalSupplied (assets s symbol)) - unat (totalBorrowed (assets s symbol)) \<and>
    (\<exists>s1. updateInterest e symbol (msg_sender e) s = Inr s1
      \<and> unat (borrowed (userPositions s1 (msg_sender e) symbol)) + unat amount < 2 ^ 256
      \<and> checkHealthFactor e s1 symbol (msg_sender e)
            (supplied (userPositions s1 (msg_sender e) symbol))
            (borrowed (userPositions s1 (msg_sender e) symbol) + amount) = Inr True
      \<and> unat (totalBorrowed (assets s1 symbol)) + unat amount < 2 ^ 256
      \<and> token_transfer e (tokenAddress (assets s1 symbol)) (msg_sender e) amount = Some True
      \<and> s' = touch s1 symbol (msg_sender e)
           (totalSupplied (assets s1 symbol)) (totalBorrowed (assets s1 symbol) + amount)
           ((userPositions s1 (msg_sender e) symbol)
              \<lparr>borrowed := borrowed (userPositions s1 (msg_sender e) symbol) + amount\<rparr>))"
proof -
  from assms have act: "isActive (assets s symbol)" and pos: "0 < amount"
    by (auto simp: borrow_def split: if_splits)
  with assms obtain av where av: "chk_sub (totalSupplied (assets s symbol)) (totalBorrowed (assets s symbol)) = Inr av"
    and liq: "amount \<le> av"
    by (auto simp: borrow_def bind_res_Inr split: if_splits)
  with assms act pos obtain s1 w x y where s1: "updateInterest e symbol (msg_sender e) s = Inr s1"
    and w: "chk_add (borrowed (userPositions s1 (msg_sender e) symbol)) amount = Inr w"
    and h: "checkHealthFactor e s1 symbol (msg_sender e)
              (supplied (userPositions s1 (msg_sender e) symbol)) w = Inr True"
    and x: "chk_add (borrowed (userPositions s1 (msg_sender e) symbol)) amount = Inr x"
    and y: "chk_add (totalBorrowed (assets s1 symbol)) amount = Inr y"
    and tok: "token_transfer e (tokenAddress (assets s1 symbol)) (msg_sender e) amount = Some True"
    and s': "s' = touch s1 symbol (msg_sender e) (totalSupplied (assets s1 symbol)) y
           ((userPositions s1 (msg_sender e) symbol)\<lparr>borrowed := x\<rparr>)"
    by (auto simp: borrow_def bind_res_Inr call_token_Inr Let_def write_borrowed
          split: if_splits)
  from liq have "unat amount \<le> unat av" by (simp add: word_le_nat_alt)
  then show ?thesis
    using act pos s1 tok h chk_sub_unat [OF av] chk_add_unat [OF x] chk_add_unat [OF y]
      chk_add_eq [OF w] chk_add_eq [OF x] chk_add_eq [OF y] s'
    by auto
qed

lemma repay_shape:
  assumes "repay e s symbol amount = Inr s'"
  shows "isActive (assets s symbol) \<and> 0 < amount
    \<and> 0 < borrowed (userPositions s (msg_sender e) symbol) \<and>
    (\<exists>s1 r. updateInterest e symbol (msg_sender e) s = Inr s1
      \<and> r = (if amount > borrowed (userPositions s1 (msg_sender e) symbol)
               then borrowed (userPositions s1 (msg_sender e) symbol) else amount)
      \<and> unat r \<le> unat (borrowed (userPositions s1 (msg_sender e) symbol))
      \<and> unat r \<le> unat (totalBorrowed (assets s1 symbol))
      \<and> token_transferFrom e (tokenAddress (assets s1 symbol)) (msg_sender e) r = Some True
      \<and> s' = touch s1 symbol (msg_sender e)
           (totalSupplied (assets s1 symbol)) (totalBorrowed (assets s1 symbol) - r)
           ((userPositions s1 (msg_sender e) symbol)
              \<lparr>borrowed := borrowed (userPositions s1 (msg_sender e) symbol) - r\<rparr>))"
proof -
  from assms have act: "isActive (assets s symbol)" and pos: "0 < amount"
    and debt: "0 < borrowed (userPositions s (msg_sender e) symbol)"
    by (auto simp: repay_def split: if_splits)
  with assms obtain s1 where s1: "updateInterest e symbol (msg_sender e) s = Inr s1"
    by (auto simp: repay_def bind_res_Inr)
  define r where "r = (if amount > borrowed (userPositions s1 (msg_sender e) symbol)
               then borrowed (userPositions s1 (msg_sender e) symbol) else amount)"
  from assms act pos debt s1 obtain x y where
    tok: "token_transferFrom e (tokenAddress (assets s1 symbol)) (msg_sender e) r = Some True"
    and x: "chk_sub (borrowed (userPositions s1 (msg_sender e) symbol)) r = Inr x"
    and y: "chk_sub (totalBorrowed (assets s1 symbol)) r = Inr y"
    and s': "s' = touch s1 symbol (msg_sender e) (totalSupplied (assets s1 symbol)) y
           ((userPositions s1 (msg_sender e) symbol)\<lparr>borrowed := x\<rparr>)"
    unfolding r_def
    by (auto simp: repay_def bind_res_Inr call_token_Inr Let_def write_borrowed
          split: if_splits)
  show ?thesis
    using act pos debt s1 tok r_def chk_sub_unat [OF x] chk_sub_unat [OF y]
      chk_sub_eq [OF x] chk_sub_eq [OF y] s'
    by auto
qed

lemma liquidate_shape:
  assumes "liquidate e s borrower symbol amount = Inr s'"
  shows "isActive (assets s symbol) \<and> 0 < amount
    \<and> 0 < borrowed (userPositions s borrower symbol) \<and>
    (\<exists>s1 price la seized. updateInterest e symbol borrower s = Inr s1
      \<and> isHealthy e s1 symbol borrower = Inr False
      \<and> la = liquidationAmount amount (borrowed (userPositions s1 borrower symbol))
      \<and> getAssetPrice e s1 symbol = Inr price
      \<and> collateralToSeize la price = Inr seized
      \<and> seized \<le> supplied (userPositions s1 borrower symbol)
      \<and> unat la \<le> unat (borrowed (userPositions s1 borrower symbol))
      \<and> unat la \<le> unat (totalBorrowed (assets s1 symbol))
      \<and> unat seized \<le> unat (totalSupplied (assets s1 symbol))
      \<and> s' = touch s1 symbol borrower
           (totalSupplied (assets s1 symbol) - seized) (totalBorrowed (assets s1 symbol) - la)
           ((userPositions s1 borrower symbol)
              \<lparr>borrowed := borrowed (userPositions s1 borrower symbol) - la,
               supplied := supplied (userPositions s1 borrower symbol) - seized\<rparr>))"
proof -
  from assms have act: "isActive (assets s symbol)" and pos: "0 < amount"
    and debt: "0 < borrowed (userPositions s borrower symbol)"
    by (auto simp: liquidate_def split: if_splits)
  with assms obtain s1 hl where s1: "updateInterest e symbol borrower s = Inr s1"
    and hl: "isHealthy e s1 symbol borrower = Inr hl"
    by (auto simp: liquidate_def bind_res_Inr)
  define la where "la = liquidationAmount amount (borrowed (userPositions s1 borrower symbol))"
  from assms act pos debt s1 hl have nh: "\<not> hl"
    by (auto simp: liquidate_def split: if_splits)
  from assms act pos debt s1 hl nh obtain price seized where
    price: "getAssetPrice e s1 symbol = Inr price"
    and seized: "collateralToSeize la price = Inr seized"
    unfolding la_def
    by (auto simp: liquidate_def bind_res_Inr Let_def)
  from assms act pos debt s1 hl nh price seized have enough: "seized \<le> supplied (userPositions s1 borrower symbol)"
    unfolding la_def
    by (auto simp: liquidate_def Let_def split: if_splits)
  from assms act pos debt s1 hl nh price seized enough obtain x y u v where
    x: "chk_sub (borrowed (userPositions s1 borrower symbol)) la = Inr x"
    and y: "chk_sub (supplied (userPositions s1 borrower symbol)) seized = Inr y"
    and u: "chk_sub (totalBorrowed (assets s1 symbol)) la = Inr u"
    and v: "chk_sub (totalSupplied (assets s1 symbol)) seized = Inr v"
    and s': "s' = touch s1 symbol borrower v u
           ((userPositions s1 borrower symbol)\<lparr>borrowed := x, supplied := y\<rparr>)"
    unfolding la_def
    by (auto simp: liquidate_def bind_res_Inr call_token_Inr Let_def write_both)
  show ?thesis
    using act pos debt s1 hl nh price seized enough la_def
      chk_sub_unat [OF x] chk_sub_unat [OF u] chk_sub_unat [OF v]
      chk_sub_eq [OF x] chk_sub_eq [OF y] chk_sub_eq [OF u] chk_sub_eq [OF v] s'
    by auto
qed

section \<open>Invariants of reachable storage\<close>

lemma updateInterest_touch:
  assumes "updateInterest e symbol user s = Inr s1"
  shows "\<exists>S B p. s1 = touch s symbol user S B p"
  using updateInterest_shape [OF assms] by blast

lemma balance_call_touch:
  assumes "exec e c s = Inr s'"
    and "\<forall>symbol tok feed cf bf lt sr br. c \<noteq> AddAsset symbol tok feed cf bf lt sr br"
    and "\<forall>symbol cf bf lt sr br active. c \<noteq> UpdateAsset symbol cf bf lt sr br active"
  shows "\<exists>symbol user S B p. isActive (assets s symbol) \<and> s' = touch s symbol user S B p"
proof (cases c)
  case (AddAsset x1 x2 x3 x4 x5 x6 x7 x8)
  with assms(2) show ?thesis by blast
next
  case (UpdateAsset x1 x2 x3 x4 x5 x6 x7)
  with assms(3) show ?thesis by blast
next
  case (Supply symbol amount)
  with assms(1) have "supply_fn e s symbol amount = Inr s'" by simp
  from supply_shape [OF this] obtain s1 S B p where act: "isActive (assets s symbol)"
    and s1: "updateInterest e symbol (msg_sender e) s = Inr s1"
    and s': "s' = touch s1 symbol (msg_sender e) S B p" by blast
  from updateInterest_touch [OF s1] s' have "\<exists>user. s' = touch s symbol user S B p"
    by (auto simp: touch_touch)
  with act show ?thesis by blast
next
  case (Withdraw symbol amount)
  with assms(1) have "withdraw e s symbol amount = Inr s'" by simp
  from withdraw_shape [OF this] obtain s1 S B p where act: "isActive (assets s symbol)"
    and s1: "updateInterest e symbol (msg_sender e) s = Inr s1"
    and s': "s' = touch s1 symbol (msg_sender e) S B p" by blast
  from updateInterest_touch [OF s1] s' have "\<exists>user. s' = touch s symbol user S B p"
    by (auto simp: touch_touch)
  with act show ?thesis by blast
next
  case (Borrow symbol amount)
  with assms(1) have "borrow e s symbol amount = Inr s'" by simp
  from borrow_shape [OF this] obtain s1 S B p where act: "isActive (assets s symbol)"
    and s1: "updateInterest e symbol (msg_sender e) s = Inr s1"
    and s': "s' = touch s1 symbol (msg_sender e) S B p" by blast
  from updateInterest_touch [OF s1] s' have "\<exists>user. s' = touch s symbol user S B p"
    by (auto simp: touch_touch)
  with act show ?thesis by blast
next
  case (Repay symbol amount)
  with assms(1) have "repay e s symbol amount = Inr s'" by simp
  from repay_shape [OF this] obtain s1 S B p where act: "isActive (assets s symbol)"
    and s1: "updateInterest e symbol (msg_sender e) s = Inr s1"
    and s': "s' = touch s1 symbol (msg_sender e) S B p" by blast
  from updateInterest_touch [OF s1] s' have "\<exists>user. s' = touch s symbol user S B p"
    by (auto simp: touch_touch)
  with act show ?thesis by blast
next
  case (Liquidate borrower symbol amount)
  with assms(1) have "liquidate e s borrower symbol amount = Inr s'" by simp
  from liquidate_shape [OF this] obtain s1 S B p where act: "isActive (assets s symbol)"
    and s1: "updateInterest e symbol borrower s = Inr s1"
    and s': "s' = touch s1 symbol borrower S B p" by blast
  from updateInterest_touch [OF s1] s' have "\<exists>user. s' = touch s symbol user S B p"
    by (auto simp: touch_touch)
  with act show ?thesis by blast
qed

lemma addAsset_shape:
  assumes "addAsset e s symbol tok feed cf bf lt sr br = Inr s'"
  shows "sender_is_owner e \<and> tokenAddress (assets s symbol) = 0
    \<and> cf \<le> 9000 \<and> bf \<le> cf \<and> cf < lt
    \<and> assetSymbols s' = assetSymbols s @ [symbol]
    \<and> userPositions s' = userPositions s
    \<and> (\<forall>x. x \<noteq> symbol \<longrightarrow> assets s' x = assets s x)
    \<and> assets s' symbol = \<lparr>tokenAddress = tok, priceFeedAddress = feed,
             collateralFactor = cf, borrowFactor = bf, liquidationThreshold = lt,
             totalSupplied = 0, totalBorrowed = 0,
             supplyInterestRate = sr, borrowInterestRate = br, isActive = True\<rparr>"
  using assms by (auto simp: addAsset_def split: if_splits)

lemma updateAsset_shape:
  assumes "updateAsset e s symbol cf bf lt sr br active = Inr s'"
  shows "sender_is_owner e \<and> tokenAddress (assets s symbol) \<noteq> 0
    \<and> cf \<le> 9000 \<and> bf \<le> cf \<and> cf < lt
    \<and> assetSymbols s' = assetSymbols s
    \<and> userPositions s' = userPositions s
    \<and> (\<forall>x. x \<noteq> symbol \<longrightarrow> assets s' x = assets s x)
    \<and> assets s' symbol = (assets s symbol)\<lparr>collateralFactor := cf, borrowFactor := bf,
               liquidationThreshold := lt, supplyInterestRate := sr,
               borrowInterestRate := br, isActive := active\<rparr>"
  using assms by (auto simp: updateAsset_def split: if_splits)

lemma step_cases:
  obtains (reverted) "step e c s = s"
  | (succeeded) s' where "exec e c s = Inr s'" "step e c s = s'"
  by (cases "exec e c s") (auto simp: step_def)

lemma unregistered_zero:
  assumes "reachable s" and "symbol \<notin> set (assetSymbols s)"
  shows "assets s symbol = zero_asset \<and> (\<forall>user. userPositions s user symbol = zero_position)"
  using assms
proof (induction rule: reachable.induct)
  case reachable_init
  show ?case by (simp add: init_state_def)
next
  case (reachable_step s e c)
  show ?case
  proof (cases rule: step_cases [of e c s])
    case reverted
    with reachable_step show ?thesis by simp
  next
    case (succeeded s')
    show ?thesis
    proof (cases c)
      case (AddAsset sy tok feed cf bf lt sr br)
      with succeeded have "addAsset e s sy tok feed cf bf lt sr br = Inr s'" by simp
      from addAsset_shape [OF this] reachable_step.prems reachable_step.IH succeeded(2)
      show ?thesis by auto
    next
      case (UpdateAsset sy cf bf lt sr br active)
      with succeeded have "updateAsset e s sy cf bf lt sr br active = Inr s'" by simp
      from updateAsset_shape [OF this] reachable_step.prems reachable_step.IH succeeded(2)
      show ?thesis by (cases "sy = symbol") (auto simp: zero_asset_def)
    next
      case (Supply sy amount)
      with balance_call_touch [OF succeeded(1)] reachable_step.prems reachable_step.IH succeeded(2)
      show ?thesis by (auto simp: zero_asset_def)
    next
      case (Withdraw sy amount)
      with balance_call_touch [OF succeeded(1)] reachable_step.prems reachable_step.IH succeeded(2)
      show ?thesis by (auto simp: zero_asset_def)
    next
      case (Borrow sy amount)
      with balance_call_touch [OF succeeded(1)] reachable_step.prems reachable_step.IH succeeded(2)
      show ?thesis by (auto simp: zero_asset_def)
    next
      case (Repay sy amount)
      with balance_call_touch [OF succeeded(1)] reachable_step.prems reachable_step.IH succeeded(2)
      show ?thesis by (auto simp: zero_asset_def)
    next
      case (Liquidate b sy amount)
      with balance_call_touch [OF succeeded(1)] reachable_step.prems reachable_step.IH succeeded(2)
      show ?thesis by (auto simp: zero_asset_def)
    qed
  qed
qed

lemma registered_risk_parameters:
  assumes "reachable s" and "symbol \<in> set (assetSymbols s)"
  shows "collateralFactor (assets s symbol) \<le> 9000
    \<and> borrowFactor (assets s symbol) \<le> collateralFactor (assets s symbol)
    \<and> collateralFactor (assets s symbol) < liquidationThreshold (assets s symbol)"
  using assms
proof (induction rule: reachable.induct)
  case reachable_init
  then show ?case by (simp add: init_state_def)
next
  case (reachable_step s e c)
  show ?case
  proof (cases rule: step_cases [of e c s])
    case reverted
    with reachable_step show ?thesis by simp
  next
    case (succeeded s')
    show ?thesis
    proof (cases c)
      case (AddAsset sy tok feed cf bf lt sr br)
      with succeeded have "addAsset e s sy tok feed cf bf lt sr br = Inr s'" by simp
      from addAsset_shape [OF this] reachable_step.prems reachable_step.IH succeeded(2)
      show ?thesis by (cases "sy = symbol") auto
    next
      case (UpdateAsset sy cf bf lt sr br active)
      with succeeded have "updateAsset e s sy cf bf lt sr br active = Inr s'" by simp
      from updateAsset_shape [OF this] reachable_step.prems reachable_step.IH succeeded(2)
      show ?thesis by (cases "sy = symbol") auto
    next
      case (Supply sy amount)
      with balance_call_touch [OF succeeded(1)] reachable_step.prems reachable_step.IH succeeded(2)
      show ?thesis by auto
    next
      case (Withdraw sy amount)
      with balance_call_touch [OF succeeded(1)] reachable_step.prems reachable_step.IH succeeded(2)
      show ?thesis by auto
    next
      case (Borrow sy amount)
      with balance_call_touch [OF succeeded(1)] reachable_step.prems reachable_step.IH succeeded(2)
      show ?thesis by auto
    next
      case (Repay sy amount)
      with balance_call_touch [OF succeeded(1)] reachable_step.prems reachable_step.IH succeeded(2)
      show ?thesis by auto
    next
      case (Liquidate b sy amount)
      with balance_call_touch [OF succeeded(1)] reachable_step.prems reachable_step.IH succeeded(2)
      show ?thesis by auto
    qed
  qed
qed

section \<open>Concrete traces\<close>

lemmas dai_defs = dai_def listed_def dai_listed_def dai_supplied_def dai_borrowed_def
  dai_liquidated_def dai_paused_def

lemmas dai_two_defs = ledger2_def dai_year_later_def dai_two_def dai_two_later_def
  dai_two_withdrawn_def

lemmas run_defs = updateInterest_def accrue_supply_def accrue_borrow_def interest_of_def
  checkHealthFactor_def isHealthy_def getAssetPrice_def collateralToSeize_def liquidationAmount_def
  chk_add_def chk_sub_def chk_mul_def chk_div_def set_asset_def set_position_def call_token_def
  Let_def

lemma dai_step1:
  "exec (world 1 1000) (AddAsset ''DAI'' 11 12 9000 9000 9400 0 10000) init_state = Inr dai_listed"
  by (simp add: addAsset_def init_state_def demo_defs dai_defs set_asset_def)

lemma dai_step2: "exec (world 7 1000) (Supply ''DAI'' 1000) dai_listed = Inr dai_supplied"
  by (simp add: supply_fn_def demo_defs dai_defs run_defs)

lemma dai_step3: "exec (world 7 1000) (Borrow ''DAI'' 900) dai_supplied = Inr dai_borrowed"
  by (simp add: borrow_def demo_defs dai_defs run_defs)

lemma dai_step4: "exec (world 7 31537000) (Repay ''DAI'' 1) dai_borrowed = Inr dai_year_later"
  by (simp add: repay_def demo_defs dai_defs dai_two_defs run_defs)

lemma dai_step_liquidate:
  "exec (world 9 1753000) (Liquidate 7 ''DAI'' 900) dai_borrowed = Inr dai_liquidated"
  by (simp add: liquidate_def demo_defs dai_defs run_defs)

lemma dai_step_pause:
  "exec (world 1 2000) (UpdateAsset ''DAI'' 9000 9000 9400 0 10000 False) dai_borrowed = Inr dai_paused"
  by (simp add: updateAsset_def demo_defs dai_defs set_asset_def)

lemma dai_step_second: "exec (world 8 1000) (Supply ''DAI'' 2000) dai_borrowed = Inr dai_two"
  by (simp add: supply_fn_def demo_defs dai_defs dai_two_defs run_defs fun_eq_iff)

lemma dai_step_touch: "exec (world 7 63073000) (Supply ''DAI'' 1) dai_two = Inr dai_two_later"
  by (simp add: supply_fn_def demo_defs dai_defs dai_two_defs run_defs fun_eq_iff)

lemma dai_step_withdraw:
  "exec (world 8 63073000) (Withdraw ''DAI'' 2000) dai_two_later = Inr dai_two_withdrawn"
  by (simp add: withdraw_def demo_defs dai_defs dai_two_defs run_defs fun_eq_iff)

lemma reachable_exec: "reachable s \<Longrightarrow> exec e c s = Inr s' \<Longrightarrow> reachable s'"
  using reachable_step [of s e c] by (simp add: step_def)

lemma reachable_dai_listed: "reachable dai_listed"
  by (rule reachable_exec [OF reachable_init dai_step1])

lemma reachable_dai_supplied: "reachable dai_supplied"
  by (rule reachable_exec [OF reachable_dai_listed dai_step2])

lemma reachable_dai_borrowed: "reachable dai_borrowed"
  by (rule reachable_exec [OF reachable_dai_supplied dai_step3])

lemma reachable_dai_paused: "reachable dai_paused"
  by (rule reachable_exec [OF reachable_dai_borrowed dai_step_pause])

lemma reachable_dai_two_later: "reachable dai_two_later"
  by (rule reachable_exec [OF reachable_exec [OF reachable_dai_borrowed dai_step_second] dai_step_touch])

section \<open>The \<open>isActive\<close> gate\<close>

text \<open>
  Claim C2, as amended. Every balance-changing call starts with
  \<open>require(asset.isActive, "Asset not active")\<close>: while an asset is inactive, supply,
  withdraw and borrow, and repay and liquidate as well, fail with the inactive-asset error.
\<close>

theorem inactive_asset_blocks_every_call:
  "\<not> isActive (assets s symbol) \<Longrightarrow>
     supply_fn e s symbol amount = Inl AssetNotActive
   \<and> withdraw e s symbol amount = Inl AssetNotActive
   \<and> borrow e s symbol amount = Inl AssetNotActive
   \<and> repay e s symbol amount = Inl AssetNotActive
   \<and> liquidate e s borrower symbol amount = Inl AssetNotActive"
  by (simp add: supply_fn_def withdraw_def borrow_def repay_def liquidate_def)

theorem inactive_asset_blocks_every_call_witness:
  "isActive (assets dai_paused ''DAI'') = False
   \<and> supply_fn (world 7 2000) dai_paused ''DAI'' 1 = Inl AssetNotActive
   \<and> withdraw (world 7 2000) dai_paused ''DAI'' 1 = Inl AssetNotActive
   \<and> borrow (world 7 2000) dai_paused ''DAI'' 1 = Inl AssetNotActive
   \<and> repay (world 7 2000) dai_paused ''DAI'' 1 = Inl AssetNotActive
   \<and> liquidate (world 9 2000) dai_paused 7 ''DAI'' 1 = Inl AssetNotActive"
proof -
  have h: "\<not> isActive (assets dai_paused ''DAI'')"
    by (simp add: dai_defs demo_defs)
  from inactive_asset_blocks_every_call [OF h, of "world 7 2000" 1 7]
    inactive_asset_blocks_every_call [OF h, of "world 9 2000" 1 7] h
  show ?thesis by simp
qed

text \<open>
  The claim as stated fails: in a reachable ledger whose registered asset has been
  deactivated by \<open>updateAsset\<close> and whose account 7 owes 900, \<open>repay\<close> of 1 and
  \<open>liquidate\<close> of 1 both fail with the inactive-asset error.
\<close>

theorem repay_refused_while_inactive:
  "reachable dai_paused
   \<and> tokenAddress (assets dai_paused ''DAI'') = 11
   \<and> isActive (assets dai_paused ''DAI'') = False
   \<and> borrowed (userPositions dai_paused 7 ''DAI'') = 900
   \<and> repay (world 7 2000) dai_paused ''DAI'' 1 = Inl AssetNotActive
   \<and> liquidate (world 9 2000) dai_paused 7 ''DAI'' 1 = Inl AssetNotActive"
  using reachable_dai_paused
  by (simp add: dai_defs demo_defs repay_def liquidate_def)

section \<open>Symbols that were never registered\<close>

text \<open>
  Claim C10. In every reachable storage, for a symbol that is not in \<open>assetSymbols\<close>,
  each of supply, withdraw, borrow, repay and liquidate fails at the \<open>isActive\<close> gate
  (the record read from the mapping is all zero, so \<open>isActive\<close> is false) and the storage
  stays as it was; \<open>getAssetDetails\<close> and \<open>userPositions\<close> return all-zero records
  instead of failing.
\<close>

theorem unregistered_asset_reads_zero_and_is_inactive:
  assumes "reachable s" and "symbol \<notin> set (assetSymbols s)"
  shows "supply_fn e s symbol amount = Inl AssetNotActive
   \<and> withdraw e s symbol amount = Inl AssetNotActive
   \<and> borrow e s symbol amount = Inl AssetNotActive
   \<and> repay e s symbol amount = Inl AssetNotActive
   \<and> liquidate e s borrower symbol amount = Inl AssetNotActive
   \<and> step e (Supply symbol amount) s = s
   \<and> step e (Withdraw symbol amount) s = s
   \<and> step e (Borrow symbol amount) s = s
   \<and> step e (Repay symbol amount) s = s
   \<and> step e (Liquidate borrower symbol amount) s = s
   \<and> getAssetDetails s symbol = (0, 0, 0, 0, 0, 0, 0, 0, 0, False)
   \<and> userPositions s user symbol = \<lparr>supplied = 0, borrowed = 0, lastUpdateTimestamp = 0\<rparr>"
proof -
  from unregistered_zero [OF assms] have z: "assets s symbol = zero_asset"
    and p: "userPositions s user symbol = zero_position" by simp_all
  from z have na: "\<not> isActive (assets s symbol)" by (simp add: zero_asset_def)
  then have gate: "supply_fn e s symbol amount = Inl AssetNotActive"
    "withdraw e s symbol amount = Inl AssetNotActive"
    "borrow e s symbol amount = Inl AssetNotActive"
    "repay e s symbol amount = Inl AssetNotActive"
    "liquidate e s borrower symbol amount = Inl AssetNotActive"
    by (simp_all add: supply_fn_def withdraw_def borrow_def repay_def liquidate_def)
  then have "step e (Supply symbol amount) s = s" "step e (Withdraw symbol amount) s = s"
    "step e (Borrow symbol amount) s = s" "step e (Repay symbol amount) s = s"
    "step e (Liquidate borrower symbol amount) s = s"
    by (simp_all add: step_def)
  moreover have "getAssetDetails s symbol = (0, 0, 0, 0, 0, 0, 0, 0, 0, False)"
    by (simp add: getAssetDetails_def z zero_asset_def)
  moreover from p have "userPositions s user symbol = \<lparr>supplied = 0, borrowed = 0, lastUpdateTimestamp = 0\<rparr>"
    by (simp add: zero_position_def)
  ultimately show ?thesis using gate by simp
qed

theorem unregistered_asset_reads_zero_and_is_inactive_witness:
  "reachable dai_borrowed \<and> ''ETH'' \<notin> set (assetSymbols dai_borrowed)
   \<and> supply_fn (world 7 2000) dai_borrowed ''ETH'' 5 = Inl AssetNotActive
   \<and> withdraw (world 7 2000) dai_borrowed ''ETH'' 5 = Inl AssetNotActive
   \<and> borrow (world 7 2000) dai_borrowed ''ETH'' 5 = Inl AssetNotActive
   \<and> repay (world 7 2000) dai_borrowed ''ETH'' 5 = Inl AssetNotActive
   \<and> liquidate (world 7 2000) dai_borrowed 7 ''ETH'' 5 = Inl AssetNotActive
   \<and> step (world 7 2000) (Supply ''ETH'' 5) dai_borrowed = dai_borrowed
   \<and> getAssetDetails dai_borrowed ''ETH'' = (0, 0, 0, 0, 0, 0, 0, 0, 0, False)
   \<and> userPositions dai_borrowed 7 ''ETH'' = \<lparr>supplied = 0, borrowed = 0, lastUpdateTimestamp = 0\<rparr>"
proof -
  have h: "''ETH'' \<notin> set (assetSymbols dai_borrowed)"
    by (simp add: dai_defs demo_defs)
  from unregistered_asset_reads_zero_and_is_inactive [OF reachable_dai_borrowed h, of "world 7 2000" 5 7 7]
    reachable_dai_borrowed h
  show ?thesis by simp
qed

section \<open>Risk parameters\<close>

text \<open>
  Claim C4, as amended. \<open>addAsset\<close> and \<open>updateAsset\<close> succeed only with
  \<open>collateralFactor \<le> 9000\<close>, \<open>borrowFactor \<le> collateralFactor\<close> and
  \<open>liquidationThreshold > collateralFactor\<close>, and an owner's call that violates one of
  them fails with the error of the first violated check; with the three satisfied
  \<open>addAsset\<close> stores any \<open>liquidationThreshold\<close>, there is no upper bound on it. Hence
  in every reachable storage every symbol of \<open>assetSymbols\<close> satisfies these three
  inequalities.
\<close>

theorem risk_parameters_enforced:
  "(addAsset e s symbol tok feed cf bf lt sr br = Inr s' \<longrightarrow> cf \<le> 9000 \<and> bf \<le> cf \<and> cf < lt)
   \<and> (updateAsset e s symbol cf bf lt sr br active = Inr s' \<longrightarrow> cf \<le> 9000 \<and> bf \<le> cf \<and> cf < lt)
   \<and> (sender_is_owner e \<and> tokenAddress (assets s symbol) = 0
        \<and> \<not> (cf \<le> 9000 \<and> bf \<le> cf \<and> cf < lt) \<longrightarrow>
       addAsset e s symbol tok feed cf bf lt sr br = Inl CollateralFactorTooHigh
       \<or> addAsset e s symbol tok feed cf bf lt sr br = Inl BorrowFactorTooHigh
       \<or> addAsset e s symbol tok feed cf bf lt sr br = Inl InvalidLiquidationThreshold)
   \<and> (sender_is_owner e \<and> tokenAddress (assets s symbol) \<noteq> 0
        \<and> \<not> (cf \<le> 9000 \<and> bf \<le> cf \<and> cf < lt) \<longrightarrow>
       updateAsset e s symbol cf bf lt sr br active = Inl CollateralFactorTooHigh
       \<or> updateAsset e s symbol cf bf lt sr br active = Inl BorrowFactorTooHigh
       \<or> updateAsset e s symbol cf bf lt sr br active = Inl InvalidLiquidationThreshold)
   \<and> (sender_is_owner e \<and> tokenAddress (assets s symbol) = 0
        \<and> cf \<le> 9000 \<and> bf \<le> cf \<and> cf < lt \<longrightarrow>
       (\<exists>s1. addAsset e s symbol tok feed cf bf lt sr br = Inr s1
          \<and> liquidationThreshold (assets s1 symbol) = lt))
   \<and> (reachable s \<and> symbol \<in> set (assetSymbols s) \<longrightarrow>
       collateralFactor (assets s symbol) \<le> 9000
       \<and> borrowFactor (assets s symbol) \<le> collateralFactor (assets s symbol)
       \<and> collateralFactor (assets s symbol) < liquidationThreshold (assets s symbol))"
proof (intro conjI impI)
  assume "addAsset e s symbol tok feed cf bf lt sr br = Inr s'"
  from addAsset_shape [OF this] show "cf \<le> 9000" "bf \<le> cf" "cf < lt" by simp_all
next
  assume "updateAsset e s symbol cf bf lt sr br active = Inr s'"
  from updateAsset_shape [OF this] show "cf \<le> 9000" "bf \<le> cf" "cf < lt" by simp_all
next
  assume "sender_is_owner e \<and> tokenAddress (assets s symbol) = 0
        \<and> \<not> (cf \<le> 9000 \<and> bf \<le> cf \<and> cf < lt)"
  then show "addAsset e s symbol tok feed cf bf lt sr br = Inl CollateralFactorTooHigh
       \<or> addAsset e s symbol tok feed cf bf lt sr br = Inl BorrowFactorTooHigh
       \<or> addAsset e s symbol tok feed cf bf lt sr br = Inl InvalidLiquidationThreshold"
    by (auto simp: addAsset_def)
next
  assume "sender_is_owner e \<and> tokenAddress (assets s symbol) \<noteq> 0
        \<and> \<not> (cf \<le> 9000 \<and> bf \<le> cf \<and> cf < lt)"
  then show "updateAsset e s symbol cf bf lt sr br active = Inl CollateralFactorTooHigh
       \<or> updateAsset e s symbol cf bf lt sr br active = Inl BorrowFactorTooHigh
       \<or> updateAsset e s symbol cf bf lt sr br active = Inl InvalidLiquidationThreshold"
    by (auto simp: updateAsset_def)
next
  assume "sender_is_owner e \<and> tokenAddress (assets s symbol) = 0
        \<and> cf \<le> 9000 \<and> bf \<le> cf \<and> cf < lt"
  then show "\<exists>s1. addAsset e s symbol tok feed cf bf lt sr br = Inr s1
          \<and> liquidationThreshold (assets s1 symbol) = lt"
    by (simp add: addAsset_def set_asset_def)
next
  assume h: "reachable s \<and> symbol \<in> set (assetSymbols s)"
  then have r: "reachable s" and m: "symbol \<in> set (assetSymbols s)" by simp_all
  from registered_risk_parameters [OF r m]
  show "collateralFactor (assets s symbol) \<le> 9000"
    "borrowFactor (assets s symbol) \<le> collateralFactor (assets s symbol)"
    "collateralFactor (assets s symbol) < liquidationThreshold (assets s symbol)"
    by simp_all
qed

lemma lt_loose_step:
  "addAsset (world 1 1000) init_state ''DAI'' 11 12 9000 9000 20000 0 0 = Inr lt_loose"
  by (simp add: addAsset_def init_state_def demo_defs lt_loose_def listed_def set_asset_def)

text \<open>
  The claim as stated fails: \<open>addAsset\<close> accepts \<open>liquidationThreshold = 20000\<close>, so a
  registered asset of a reachable storage has a threshold above 10000.
\<close>

theorem liquidation_threshold_above_10000_accepted:
  "addAsset (world 1 1000) init_state ''DAI'' 11 12 9000 9000 20000 0 0 = Inr lt_loose
   \<and> reachable lt_loose
   \<and> ''DAI'' \<in> set (assetSymbols lt_loose)
   \<and> 10000 < liquidationThreshold (assets lt_loose ''DAI'')"
proof -
  have "exec (world 1 1000) (AddAsset ''DAI'' 11 12 9000 9000 20000 0 0) init_state = Inr lt_loose"
    using lt_loose_step by simp
  from reachable_exec [OF reachable_init this] lt_loose_step show ?thesis
    by (simp add: lt_loose_def listed_def demo_defs)
qed

theorem risk_parameters_enforced_witness:
  "addAsset (world 1 1000) init_state ''DAI'' 11 12 9000 9000 9400 0 10000 = Inr dai_listed
   \<and> (9000 :: u256) \<le> 9000 \<and> (9000 :: u256) < 9400
   \<and> updateAsset (world 1 2000) dai_borrowed ''DAI'' 9000 9000 9400 0 10000 False = Inr dai_paused
   \<and> addAsset (world 1 1000) init_state ''DAI'' 11 12 9500 9000 9400 0 10000 = Inl CollateralFactorTooHigh
   \<and> updateAsset (world 1 2000) dai_borrowed ''DAI'' 9000 9000 9000 0 10000 True = Inl InvalidLiquidationThreshold
   \<and> (\<exists>s1. addAsset (world 1 1000) init_state ''DAI'' 11 12 9000 9000 20000 0 0 = Inr s1
          \<and> liquidationThreshold (assets s1 ''DAI'') = 20000)
   \<and> reachable dai_borrowed \<and> ''DAI'' \<in> set (assetSymbols dai_borrowed)
   \<and> collateralFactor (assets dai_borrowed ''DAI'') \<le> 9000
   \<and> borrowFactor (assets dai_borrowed ''DAI'') \<le> collateralFactor (assets dai_borrowed ''DAI'')
   \<and> collateralFactor (assets dai_borrowed ''DAI'') < liquidationThreshold (assets dai_borrowed ''DAI'')"
proof -
  have a: "addAsset (world 1 1000) init_state ''DAI'' 11 12 9000 9000 9400 0 10000 = Inr dai_listed"
    using dai_step1 by simp
  have u: "updateAsset (world 1 2000) dai_borrowed ''DAI'' 9000 9000 9400 0 10000 False = Inr dai_paused"
    using dai_step_pause by simp
  have own: "sender_is_owner (world 1 1000)" "sender_is_owner (world 1 2000)"
    "tokenAddress (assets init_state ''DAI'') = 0" "tokenAddress (assets dai_borrowed ''DAI'') \<noteq> 0"
    by (simp_all add: demo_defs dai_defs init_state_def)
  have m: "''DAI'' \<in> set (assetSymbols dai_borrowed)" by (simp add: dai_defs demo_defs)
  have 1: "(9000 :: u256) \<le> 9000 \<and> (9000 :: u256) < 9400"
    using risk_parameters_enforced [of "world 1 1000" init_state "''DAI''" 11 12 9000 9000 9400 0 10000 dai_listed] a
    by simp
  have 2: "addAsset (world 1 1000) init_state ''DAI'' 11 12 9500 9000 9400 0 10000 = Inl CollateralFactorTooHigh"
    using risk_parameters_enforced [of "world 1 1000" init_state "''DAI''" 11 12 9500 9000 9400 0 10000] own
    by (simp add: addAsset_def)
  have 3: "updateAsset (world 1 2000) dai_borrowed ''DAI'' 9000 9000 9000 0 10000 True = Inl InvalidLiquidationThreshold"
    using risk_parameters_enforced [of "world 1 2000" dai_borrowed "''DAI''" 11 12 9000 9000 9000 0 10000 _ True] own
    by (simp add: updateAsset_def)
  have 4: "\<exists>s1. addAsset (world 1 1000) init_state ''DAI'' 11 12 9000 9000 20000 0 0 = Inr s1
          \<and> liquidationThreshold (assets s1 ''DAI'') = 20000"
    using risk_parameters_enforced [of "world 1 1000" init_state "''DAI''" 11 12 9000 9000 20000 0 0] own
    by simp
  have 5: "collateralFactor (assets dai_borrowed ''DAI'') \<le> 9000
   \<and> borrowFactor (assets dai_borrowed ''DAI'') \<le> collateralFactor (assets dai_borrowed ''DAI'')
   \<and> collateralFactor (assets dai_borrowed ''DAI'') < liquidationThreshold (assets dai_borrowed ''DAI'')"
    using risk_parameters_enforced [of _ dai_borrowed "''DAI''"] reachable_dai_borrowed m
    by simp
  from a u 1 2 3 4 5 reachable_dai_borrowed m show ?thesis by simp
qed

section \<open>Errors and values of the health checks\<close>

lemma updateInterest_error: "updateInterest e symbol user s = Inl err \<Longrightarrow> err = Panic"
  by (auto simp: updateInterest_def accrue_supply_def accrue_borrow_def interest_of_def Let_def
        bind_res_Inl dest: chk_errors split: if_splits)

lemma getAssetPrice_error:
  "getAssetPrice e s symbol = Inl err \<Longrightarrow>
     err = AssetDoesNotExist \<or> err = ExternalCallReverted \<or> err = InvalidPrice \<or> err = Panic"
  by (auto simp: getAssetPrice_def Let_def dest: chk_errors split: if_splits option.splits)


lemma getAssetPrice_touch [simp]:
  "getAssetPrice e (touch s symbol user S B p) x = getAssetPrice e s x"
  by (simp add: getAssetPrice_def)

lemma health_eval:
  "bind_res (chk_mul supp price) (\<lambda>x.
     bind_res (chk_mul x factor) (\<lambda>y.
     bind_res (chk_div y 10000) (\<lambda>collateralValue.
     bind_res (chk_mul borr price) (\<lambda>borrowValue.
     Inr (collateralValue \<ge> borrowValue))))) =
   (if health_fits (unat supp) (unat borr) (unat price) (unat factor)
    then Inr (within_limit (unat supp) (unat borr) (unat price) (unat factor))
    else Inl Panic)"
proof (cases "unat supp * unat price < 2 ^ 256")
  case False
  then show ?thesis by (simp add: chk_mul_def health_fits_def)
next
  case a: True
  then have x: "chk_mul supp price = Inr (supp * price)" and ux: "unat (supp * price) = unat supp * unat price"
    by (simp_all add: chk_mul_def unat_mul_fits)
  show ?thesis
  proof (cases "unat supp * unat price * unat factor < 2 ^ 256")
    case False
    then show ?thesis using a by (simp add: x chk_mul_def ux health_fits_def)
  next
    case b: True
    then have "unat (supp * price) * unat factor < 2 ^ 256" by (simp add: ux)
    then have y: "chk_mul (supp * price) factor = Inr (supp * price * factor)"
      and uy: "unat (supp * price * factor) = unat supp * unat price * unat factor"
      by (simp_all add: chk_mul_def unat_mul_fits ux)
    have d: "chk_div (supp * price * factor) 10000 = Inr (supp * price * factor div 10000)"
      by (simp add: chk_div_def)
    have ud: "unat (supp * price * factor div 10000) = unat supp * unat price * unat factor div 10000"
      by (simp add: unat_div uy)
    show ?thesis
    proof (cases "unat borr * unat price < 2 ^ 256")
      case False
      then show ?thesis using a b by (simp add: x y d chk_mul_def health_fits_def)
    next
      case c: True
      then have z: "chk_mul borr price = Inr (borr * price)" and uz: "unat (borr * price) = unat borr * unat price"
        by (simp_all add: chk_mul_def unat_mul_fits)
      show ?thesis using a b c
        by (simp add: x y d z health_fits_def within_limit_def word_le_nat_alt ud uz)
    qed
  qed
qed

lemma checkHealthFactor_eval:
  assumes "borr \<noteq> 0" and "getAssetPrice e s symbol = Inr price"
  shows "checkHealthFactor e s symbol user supp borr =
    (if health_fits (unat supp) (unat borr) (unat price) (unat (collateralFactor (assets s symbol)))
     then Inr (within_limit (unat supp) (unat borr) (unat price) (unat (collateralFactor (assets s symbol))))
     else Inl Panic)"
  using assms by (simp add: checkHealthFactor_def Let_def health_eval)

lemma isHealthy_eval:
  assumes "borrowed (userPositions s user symbol) \<noteq> 0" and "getAssetPrice e s symbol = Inr price"
  shows "isHealthy e s symbol user =
    (if health_fits (unat (supplied (userPositions s user symbol)))
          (unat (borrowed (userPositions s user symbol))) (unat price)
          (unat (liquidationThreshold (assets s symbol)))
     then Inr (within_limit (unat (supplied (userPositions s user symbol)))
          (unat (borrowed (userPositions s user symbol))) (unat price)
          (unat (liquidationThreshold (assets s symbol))))
     else Inl Panic)"
  using assms by (simp add: isHealthy_def Let_def health_eval)

lemma checkHealthFactor_error:
  assumes "checkHealthFactor e s symbol user supp borr = Inl err"
  shows "err = AssetDoesNotExist \<or> err = ExternalCallReverted \<or> err = InvalidPrice \<or> err = Panic"
proof (cases "getAssetPrice e s symbol")
  case (Inl a)
  with assms have "err = a" by (auto simp: checkHealthFactor_def Let_def split: if_splits)
  with getAssetPrice_error [OF Inl] show ?thesis by simp
next
  case (Inr p)
  from assms have "borr \<noteq> 0" by (auto simp: checkHealthFactor_def)
  from checkHealthFactor_eval [OF this Inr] assms show ?thesis by (auto split: if_splits)
qed

lemma isHealthy_error:
  assumes "isHealthy e s symbol user = Inl err"
  shows "err = AssetDoesNotExist \<or> err = ExternalCallReverted \<or> err = InvalidPrice \<or> err = Panic"
proof (cases "getAssetPrice e s symbol")
  case (Inl a)
  with assms have "err = a" by (auto simp: isHealthy_def Let_def split: if_splits)
  with getAssetPrice_error [OF Inl] show ?thesis by simp
next
  case (Inr p)
  from assms have "borrowed (userPositions s user symbol) \<noteq> 0" by (auto simp: isHealthy_def Let_def)
  from isHealthy_eval [OF this Inr] assms show ?thesis by (auto split: if_splits)
qed

lemma call_token_error:
  "call_token r err0 = Inl err \<Longrightarrow> err = ExternalCallReverted \<or> err = err0"
  by (auto simp: call_token_def split: option.splits if_splits)

lemma collateralToSeize_error: "collateralToSeize a p = Inl err \<Longrightarrow> err = Panic"
  by (auto simp: collateralToSeize_def bind_res_Inl dest: chk_errors)




section \<open>Borrowing against the collateral factor\<close>











section \<open>The liquidation gate\<close>





lemma liquidate_error_collateral:
  assumes "liquidate e s borrower symbol amount = Inl InsufficientCollateral"
  shows "\<exists>s1 price seized. updateInterest e symbol borrower s = Inr s1
    \<and> isHealthy e s1 symbol borrower = Inr False
    \<and> getAssetPrice e s1 symbol = Inr price
    \<and> collateralToSeize (liquidationAmount amount (borrowed (userPositions s1 borrower symbol)))
         price = Inr seized
    \<and> supplied (userPositions s1 borrower symbol) < seized"
proof -
  from assms have g: "isActive (assets s symbol)" "0 < amount" "0 < borrowed (userPositions s borrower symbol)"
    by (auto simp: liquidate_def split: if_splits)
  from assms g obtain s1 where s1: "updateInterest e symbol borrower s = Inr s1"
    by (cases "updateInterest e symbol borrower s")
      (auto simp: liquidate_def dest: updateInterest_error)
  from assms g s1 obtain hl where hl: "isHealthy e s1 symbol borrower = Inr hl"
    by (cases "isHealthy e s1 symbol borrower")
      (auto simp: liquidate_def dest: isHealthy_error)
  from assms g s1 hl have nh: "\<not> hl" by (auto simp: liquidate_def split: if_splits)
  let ?p = "userPositions s1 borrower symbol"
  let ?la = "liquidationAmount amount (borrowed ?p)"
  from assms g s1 hl nh obtain price where price: "getAssetPrice e s1 symbol = Inr price"
    by (cases "getAssetPrice e s1 symbol")
      (auto simp: liquidate_def Let_def dest: getAssetPrice_error)
  from assms g s1 hl nh price obtain seized where seized: "collateralToSeize ?la price = Inr seized"
    by (cases "collateralToSeize ?la price")
      (auto simp: liquidate_def Let_def dest: collateralToSeize_error)
  have "\<not> seized \<le> supplied ?p"
  proof
    assume "seized \<le> supplied ?p"
    with assms g s1 hl nh price seized have rest:
      "bind_res (call_token (token_transferFrom e (tokenAddress (assets s1 symbol))
                       (msg_sender e) ?la) TransferFailed) (\<lambda>(_::unit).
           bind_res (chk_sub (borrowed ?p) ?la) (\<lambda>newBor.
           bind_res (chk_sub (supplied ?p) seized) (\<lambda>newSup.
           let s2 = set_position s1 borrower symbol
                      (?p\<lparr>borrowed := newBor, supplied := newSup\<rparr>) in
           bind_res (chk_sub (totalBorrowed (assets s2 symbol)) ?la) (\<lambda>totB.
           bind_res (chk_sub (totalSupplied (assets s2 symbol)) seized) (\<lambda>totS.
           let s3 = set_asset s2 symbol
                      ((assets s2 symbol)\<lparr>totalBorrowed := totB, totalSupplied := totS\<rparr>) in
           bind_res (call_token (token_transfer e (tokenAddress (assets s3 symbol))
                       (msg_sender e) seized) CollateralTransferFailed) (\<lambda>(_::unit).
           Inr s3)))))) = Inl InsufficientCollateral"
      by (simp add: liquidate_def Let_def)
    then show False
      by (auto simp: bind_res_Inl Let_def dest: call_token_error chk_errors)
  qed
  then have "supplied ?p < seized" by (simp add: not_le)
  with s1 hl nh price seized show ?thesis by auto
qed

lemma seize_cancels:
  fixes a p :: nat
  assumes "0 < p"
  shows "a * p * 11000 div (p * 10000) = a * 11000 div 10000"
proof -
  have "a * p * 11000 = p * (a * 11000)" by simp
  then have "a * p * 11000 div (p * 10000) = p * (a * 11000) div (p * 10000)" by simp
  also have "\<dots> = a * 11000 div 10000" using assms by (rule div_mult_mult1 [OF less_imp_neq [THEN not_sym]])
  finally show ?thesis .
qed

lemma collateralToSeize_value:
  assumes "collateralToSeize a p = Inr c"
  shows "p \<noteq> 0 \<and> unat c = unat a * 11000 div 10000"
proof -
  from assms obtain x n d where x: "chk_mul a p = Inr x" and n: "chk_mul x 11000 = Inr n"
    and d: "chk_mul p 10000 = Inr d" and c: "chk_div n d = Inr c"
    by (auto simp: collateralToSeize_def bind_res_Inr)
  from chk_div_unat [OF c] have dz: "d \<noteq> 0" and cv: "unat c = unat n div unat d" by simp_all
  from chk_mul_unat [OF d] have dv: "unat d = unat p * 10000" by simp
  from dz have "unat d \<noteq> 0" by (simp add: unat_eq_0)
  with dv have pp: "0 < unat p" by simp
  from chk_mul_unat [OF x] chk_mul_unat [OF n] have nv: "unat n = unat a * unat p * 11000" by simp
  from pp have "p \<noteq> 0" by auto
  moreover have "unat c = unat a * 11000 div 10000"
    unfolding cv nv dv by (rule seize_cancels [OF pp])
  ultimately show ?thesis by simp
qed

lemma collateralToSeize_total:
  assumes "p \<noteq> 0" and "unat a * unat p * 11000 < 2 ^ 256" and "unat p * 10000 < 2 ^ 256"
  shows "\<exists>c. collateralToSeize a p = Inr c"
proof -
  have "unat a * unat p * 1 \<le> unat a * unat p * 11000" by (rule mult_le_mono2) simp
  then have "unat a * unat p \<le> unat a * unat p * 11000" by (simp only: mult_1_right)
  then have ap: "unat a * unat p < 2 ^ 256" using assms(2) by (rule le_less_trans)
  then have x: "chk_mul a p = Inr (a * p)" and ux: "unat (a * p) = unat a * unat p"
    by (simp_all add: chk_mul_def unat_mul_fits)
  from assms(2) have "unat (a * p) * unat (11000 :: u256) < 2 ^ 256" by (simp add: ux)
  then have n: "chk_mul (a * p) 11000 = Inr (a * p * 11000)" by (simp add: chk_mul_def)
  from assms(3) have "unat p * unat (10000 :: u256) < 2 ^ 256" by simp
  then have d: "chk_mul p 10000 = Inr (p * 10000)" and ud: "unat (p * 10000) = unat p * unat (10000 :: u256)"
    by (simp_all add: chk_mul_def unat_mul_fits)
  from assms(1) have "unat p \<noteq> 0" by (simp add: unat_eq_0)
  with ud have "unat (p * 10000) \<noteq> 0" by simp
  then have "p * 10000 \<noteq> 0" by (simp add: unat_eq_0)
  with x n d show ?thesis by (simp add: collateralToSeize_def chk_div_def)
qed

section \<open>Collateral seized by a liquidation\<close>

text \<open>
  Claim C7, as amended. The liquidation amount is \<open>min(amount, position.borrowed)\<close>.
  Whenever \<open>(liquidationAmount * assetPrice * 11000) / (assetPrice * 10000)\<close> is
  computed (no product overflows, which for a non-zero price is also sufficient), its
  value is \<open>floor(liquidationAmount * 11000 / 10000)\<close>, whatever the price. A
  \<open>liquidate\<close> that reaches the collateral check (active asset, positive amount, debt,
  and the position after accrual not healthy under the liquidation threshold) with this
  value above \<open>position.supplied\<close> fails with "Insufficient collateral", and that error
  is returned only then; a healthy position fails with "Position is healthy" before the
  value is looked at. A \<open>liquidate\<close> that succeeds takes exactly this value from
  \<open>supplied\<close> and the liquidation amount from \<open>borrowed\<close>.
\<close>

theorem seized_collateral_is_ten_percent_bonus:
  "(collateralToSeize liqAmount assetPrice = Inr seized \<longrightarrow>
      assetPrice \<noteq> 0 \<and> unat seized = unat liqAmount * 11000 div 10000)
   \<and> (assetPrice \<noteq> 0 \<and> unat liqAmount * unat assetPrice * 11000 < 2 ^ 256
        \<and> unat assetPrice * 10000 < 2 ^ 256 \<longrightarrow>
      (\<exists>c. collateralToSeize liqAmount assetPrice = Inr c))
   \<and> (isActive (assets s symbol) \<and> 0 < amount \<and> 0 < borrowed (userPositions s borrower symbol)
        \<and> updateInterest e symbol borrower s = Inr s1
        \<and> isHealthy e s1 symbol borrower = Inr False
        \<and> getAssetPrice e s1 symbol = Inr assetPrice
        \<and> collateralToSeize (liquidationAmount amount (borrowed (userPositions s1 borrower symbol)))
             assetPrice = Inr seized
        \<and> supplied (userPositions s1 borrower symbol) < seized \<longrightarrow>
      liquidate e s borrower symbol amount = Inl InsufficientCollateral)
   \<and> (liquidate e s borrower symbol amount = Inr s' \<longrightarrow>
      (\<exists>s2. updateInterest e symbol borrower s = Inr s2
         \<and> unat (liquidationAmount amount (borrowed (userPositions s2 borrower symbol))) * 11000 div 10000
             \<le> unat (supplied (userPositions s2 borrower symbol))
         \<and> unat (supplied (userPositions s' borrower symbol)) =
             unat (supplied (userPositions s2 borrower symbol))
             - unat (liquidationAmount amount (borrowed (userPositions s2 borrower symbol))) * 11000 div 10000
         \<and> unat (borrowed (userPositions s' borrower symbol)) =
             unat (borrowed (userPositions s2 borrower symbol))
             - unat (liquidationAmount amount (borrowed (userPositions s2 borrower symbol)))))
   \<and> (liquidate e s borrower symbol amount = Inl InsufficientCollateral \<longrightarrow>
      (\<exists>s2 price2 seized2. updateInterest e symbol borrower s = Inr s2
         \<and> isHealthy e s2 symbol borrower = Inr False
         \<and> getAssetPrice e s2 symbol = Inr price2
         \<and> collateralToSeize
              (liquidationAmount amount (borrowed (userPositions s2 borrower symbol))) price2
             = Inr seized2
         \<and> unat seized2 =
             unat (liquidationAmount amount (borrowed (userPositions s2 borrower symbol)))
               * 11000 div 10000
         \<and> unat (supplied (userPositions s2 borrower symbol)) < unat seized2))
   \<and> unat (liquidationAmount amount debt) = min (unat amount) (unat debt)"
proof (intro conjI impI)
  assume "collateralToSeize liqAmount assetPrice = Inr seized"
  from collateralToSeize_value [OF this]
  show "assetPrice \<noteq> 0" "unat seized = unat liqAmount * 11000 div 10000" by simp_all
next
  assume "assetPrice \<noteq> 0 \<and> unat liqAmount * unat assetPrice * 11000 < 2 ^ 256
        \<and> unat assetPrice * 10000 < 2 ^ 256"
  then show "\<exists>c. collateralToSeize liqAmount assetPrice = Inr c"
    using collateralToSeize_total by blast
next
  assume "isActive (assets s symbol) \<and> 0 < amount \<and> 0 < borrowed (userPositions s borrower symbol)
        \<and> updateInterest e symbol borrower s = Inr s1
        \<and> isHealthy e s1 symbol borrower = Inr False
        \<and> getAssetPrice e s1 symbol = Inr assetPrice
        \<and> collateralToSeize (liquidationAmount amount (borrowed (userPositions s1 borrower symbol)))
             assetPrice = Inr seized
        \<and> supplied (userPositions s1 borrower symbol) < seized"
  then show "liquidate e s borrower symbol amount = Inl InsufficientCollateral"
    by (simp add: liquidate_def Let_def not_le)
next
  assume "liquidate e s borrower symbol amount = Inr s'"
  from liquidate_shape [OF this] obtain s2 price la c where
    s2: "updateInterest e symbol borrower s = Inr s2"
    and la: "la = liquidationAmount amount (borrowed (userPositions s2 borrower symbol))"
    and c: "collateralToSeize la price = Inr c"
    and enough: "c \<le> supplied (userPositions s2 borrower symbol)"
    and lb: "unat la \<le> unat (borrowed (userPositions s2 borrower symbol))"
    and s': "s' = touch s2 symbol borrower
           (totalSupplied (assets s2 symbol) - c) (totalBorrowed (assets s2 symbol) - la)
           ((userPositions s2 borrower symbol)
              \<lparr>borrowed := borrowed (userPositions s2 borrower symbol) - la,
               supplied := supplied (userPositions s2 borrower symbol) - c\<rparr>)"
    by blast
  from collateralToSeize_value [OF c] have cv: "unat c = unat la * 11000 div 10000" by simp
  from enough have ce: "unat c \<le> unat (supplied (userPositions s2 borrower symbol))"
    by (simp add: word_le_nat_alt)
  from lb have lb': "la \<le> borrowed (userPositions s2 borrower symbol)" by (simp add: word_le_nat_alt)
  have "unat (supplied (userPositions s' borrower symbol)) =
      unat (supplied (userPositions s2 borrower symbol)) - unat c"
    using enough by (simp add: s' unat_sub)
  moreover have "unat (borrowed (userPositions s' borrower symbol)) =
      unat (borrowed (userPositions s2 borrower symbol)) - unat la"
    using lb' by (simp add: s' unat_sub)
  ultimately show "\<exists>s2. updateInterest e symbol borrower s = Inr s2
         \<and> unat (liquidationAmount amount (borrowed (userPositions s2 borrower symbol))) * 11000 div 10000
             \<le> unat (supplied (userPositions s2 borrower symbol))
         \<and> unat (supplied (userPositions s' borrower symbol)) =
             unat (supplied (userPositions s2 borrower symbol))
             - unat (liquidationAmount amount (borrowed (userPositions s2 borrower symbol))) * 11000 div 10000
         \<and> unat (borrowed (userPositions s' borrower symbol)) =
             unat (borrowed (userPositions s2 borrower symbol))
             - unat (liquidationAmount amount (borrowed (userPositions s2 borrower symbol)))"
    using s2 ce cv la by auto
next
  assume "liquidate e s borrower symbol amount = Inl InsufficientCollateral"
  from liquidate_error_collateral [OF this] obtain s2 price2 seized2 where
    s2: "updateInterest e symbol borrower s = Inr s2"
    and hl: "isHealthy e s2 symbol borrower = Inr False"
    and price2: "getAssetPrice e s2 symbol = Inr price2"
    and seized2: "collateralToSeize
        (liquidationAmount amount (borrowed (userPositions s2 borrower symbol))) price2 = Inr seized2"
    and short: "supplied (userPositions s2 borrower symbol) < seized2"
    by blast
  from collateralToSeize_value [OF seized2]
  have v: "unat seized2 =
      unat (liquidationAmount amount (borrowed (userPositions s2 borrower symbol))) * 11000 div 10000"
    by simp
  from short have "unat (supplied (userPositions s2 borrower symbol)) < unat seized2"
    by (simp add: word_less_nat_alt)
  with s2 hl price2 seized2 v
  show "\<exists>s2 price2 seized2. updateInterest e symbol borrower s = Inr s2
         \<and> isHealthy e s2 symbol borrower = Inr False
         \<and> getAssetPrice e s2 symbol = Inr price2
         \<and> collateralToSeize
              (liquidationAmount amount (borrowed (userPositions s2 borrower symbol))) price2
             = Inr seized2
         \<and> unat seized2 =
             unat (liquidationAmount amount (borrowed (userPositions s2 borrower symbol)))
               * 11000 div 10000
         \<and> unat (supplied (userPositions s2 borrower symbol)) < unat seized2"
    by blast
next
  show "unat (liquidationAmount amount debt) = min (unat amount) (unat debt)"
    by (simp add: liquidationAmount_def word_less_nat_alt min_def)
qed

lemma dai_accrue: "updateInterest (world 9 1753000) ''DAI'' 7 dai_borrowed = Inr dai_accrued"
  by (simp add: demo_defs dai_defs dai_accrued_def run_defs)

lemma dai_accrued_unhealthy: "isHealthy (world 9 1753000) dai_accrued ''DAI'' 7 = Inr False"
  by (simp add: demo_defs dai_defs dai_accrued_def run_defs)

lemma dai_accrued_price: "getAssetPrice (world 9 1753000) dai_accrued ''DAI'' = Inr 1000000000000000000"
  by (simp add: getAssetPrice_def demo_defs dai_defs dai_accrued_def chk_mul_def)

lemma seize_950: "collateralToSeize 950 1000000000000000000 = Inr 1045"
  by (simp add: collateralToSeize_def chk_mul_def chk_div_def)

theorem seized_collateral_is_ten_percent_bonus_witness:
  "collateralToSeize 950 1000000000000000000 = Inr 1045
   \<and> unat (1045 :: u256) = unat (950 :: u256) * 11000 div 10000
   \<and> (\<exists>c. collateralToSeize 900 1000000000000000000 = Inr c)
   \<and> liquidate (world 9 1753000) dai_borrowed 7 ''DAI'' 950 = Inl InsufficientCollateral
   \<and> liquidate (world 9 1753000) dai_borrowed 7 ''DAI'' 900 = Inr dai_liquidated
   \<and> unat (supplied (userPositions dai_liquidated 7 ''DAI'')) = 1000 - 900 * 11000 div 10000
   \<and> unat (borrowed (userPositions dai_liquidated 7 ''DAI'')) = 950 - 900
   \<and> (\<exists>s2 price2 seized2. updateInterest (world 9 1753000) ''DAI'' 7 dai_borrowed = Inr s2
         \<and> isHealthy (world 9 1753000) s2 ''DAI'' 7 = Inr False
         \<and> getAssetPrice (world 9 1753000) s2 ''DAI'' = Inr price2
         \<and> collateralToSeize (liquidationAmount 950 (borrowed (userPositions s2 7 ''DAI''))) price2
             = Inr seized2
         \<and> unat seized2 =
             unat (liquidationAmount 950 (borrowed (userPositions s2 7 ''DAI''))) * 11000 div 10000
         \<and> unat (supplied (userPositions s2 7 ''DAI'')) < unat seized2)
   \<and> unat (liquidationAmount 2000 950) = min (unat (2000 :: u256)) (unat (950 :: u256))
   \<and> unat (liquidationAmount 900 950) = min (unat (900 :: u256)) (unat (950 :: u256))"
proof -
  have a: "unat (1045 :: u256) = unat (950 :: u256) * 11000 div 10000"
    using seized_collateral_is_ten_percent_bonus [of 950 1000000000000000000 1045] seize_950
    by blast
  have b: "\<exists>c. collateralToSeize 900 1000000000000000000 = Inr c"
    using seized_collateral_is_ten_percent_bonus [of 900 1000000000000000000]
    by simp
  have c: "liquidate (world 9 1753000) dai_borrowed 7 ''DAI'' 950 = Inl InsufficientCollateral"
    using seized_collateral_is_ten_percent_bonus [of 950 1000000000000000000 1045 dai_borrowed
        "''DAI''" 950 7 "world 9 1753000" dai_accrued]
      dai_accrue dai_accrued_unhealthy dai_accrued_price seize_950
    by (simp add: demo_defs dai_defs dai_accrued_def liquidationAmount_def)
  have l: "liquidate (world 9 1753000) dai_borrowed 7 ''DAI'' 900 = Inr dai_liquidated"
    using dai_step_liquidate by simp
  have d: "unat (supplied (userPositions dai_liquidated 7 ''DAI'')) = 1000 - 900 * 11000 div 10000
   \<and> unat (borrowed (userPositions dai_liquidated 7 ''DAI'')) = 950 - 900"
    using seized_collateral_is_ten_percent_bonus [of _ _ _ dai_borrowed "''DAI''" 900 7
        "world 9 1753000" _ dai_liquidated] l dai_accrue
    by (auto simp: demo_defs dai_defs dai_accrued_def liquidationAmount_def)
  from c have x: "\<exists>s2 price2 seized2. updateInterest (world 9 1753000) ''DAI'' 7 dai_borrowed = Inr s2
         \<and> isHealthy (world 9 1753000) s2 ''DAI'' 7 = Inr False
         \<and> getAssetPrice (world 9 1753000) s2 ''DAI'' = Inr price2
         \<and> collateralToSeize (liquidationAmount 950 (borrowed (userPositions s2 7 ''DAI''))) price2
             = Inr seized2
         \<and> unat seized2 =
             unat (liquidationAmount 950 (borrowed (userPositions s2 7 ''DAI''))) * 11000 div 10000
         \<and> unat (supplied (userPositions s2 7 ''DAI'')) < unat seized2"
    using seized_collateral_is_ten_percent_bonus [of _ _ _ dai_borrowed "''DAI''" 950 7
        "world 9 1753000"]
    by blast
  have m: "unat (liquidationAmount 2000 950) = min (unat (2000 :: u256)) (unat (950 :: u256))"
    "unat (liquidationAmount 900 950) = min (unat (900 :: u256)) (unat (950 :: u256))"
    using seized_collateral_is_ten_percent_bonus [of _ _ _ _ _ 2000 _ _ _ _ 950]
      seized_collateral_is_ten_percent_bonus [of _ _ _ _ _ 900 _ _ _ _ 950]
    by blast+
  from a b c l d x m seize_950 show ?thesis by blast
qed

lemma dai_still_healthy_accrue:
  "updateInterest (world 9 701800) ''DAI'' 7 dai_borrowed = Inr dai_still_healthy"
  by (simp add: demo_defs dai_defs dai_still_healthy_def run_defs)

lemma seize_920: "collateralToSeize 920 1000000000000000000 = Inr 1012"
  by (simp add: collateralToSeize_def chk_mul_def chk_div_def)

text \<open>
  The claim as stated fails: in a reachable ledger the position holds 1000 and, after
  accrual, owes 920. For \<open>liquidate\<close> of 920 the seized value would be 1012, above the
  1000 supplied, yet the call fails with "Position is healthy" (940 against 920) and not
  with "Insufficient collateral".
\<close>

theorem oversized_seizure_on_healthy_position:
  "reachable dai_borrowed
   \<and> updateInterest (world 9 701800) ''DAI'' 7 dai_borrowed = Inr dai_still_healthy
   \<and> getAssetPrice (world 9 701800) dai_still_healthy ''DAI'' = Inr 1000000000000000000
   \<and> liquidationAmount 920 (borrowed (userPositions dai_still_healthy 7 ''DAI'')) = 920
   \<and> collateralToSeize 920 1000000000000000000 = Inr 1012
   \<and> supplied (userPositions dai_still_healthy 7 ''DAI'') = 1000
   \<and> (1000 :: u256) < 1012
   \<and> liquidate (world 9 701800) dai_borrowed 7 ''DAI'' 920 = Inl PositionIsHealthy"
proof -
  have p: "getAssetPrice (world 9 701800) dai_still_healthy ''DAI'' = Inr 1000000000000000000"
    by (simp add: getAssetPrice_def demo_defs dai_defs dai_still_healthy_def chk_mul_def)
  have l: "liquidate (world 9 701800) dai_borrowed 7 ''DAI'' 920 = Inl PositionIsHealthy"
    by (simp add: liquidate_def demo_defs dai_defs run_defs)
  have v: "liquidationAmount 920 (borrowed (userPositions dai_still_healthy 7 ''DAI'')) = 920"
    "supplied (userPositions dai_still_healthy 7 ''DAI'') = 1000" "(1000 :: u256) < 1012"
    by (simp_all add: demo_defs dai_defs dai_still_healthy_def liquidationAmount_def)
  from reachable_dai_borrowed dai_still_healthy_accrue p l v seize_920 show ?thesis by simp
qed

lemmas sav_defs = sav_def sav_listed_def sav_before_def sav_accrued_def listed_def

lemma sav_step1:
  "exec (world 1 1000) (AddAsset ''DAI'' 11 12 7500 7500 8500 10000 0) init_state = Inr sav_listed"
  by (simp add: addAsset_def init_state_def demo_defs sav_defs set_asset_def)

lemma sav_step2: "exec (world 7 1000) (Supply ''DAI'' 100) sav_listed = Inr sav_before"
  by (simp add: supply_fn_def demo_defs sav_defs run_defs)

lemma reachable_sav_before: "reachable sav_before"
  by (rule reachable_exec [OF reachable_exec [OF reachable_init sav_step1] sav_step2])

lemma sav_accrue: "updateInterest (world 7 31537000) ''DAI'' 7 sav_before = Inr sav_accrued"
  by (simp add: demo_defs sav_defs run_defs)

lemma sav_supply_later: "supply_fn (world 7 31537000) sav_before ''DAI'' 50 = Inr sav_mid"
  by (simp add: supply_fn_def demo_defs sav_defs sav_mid_def run_defs)

lemma sav_withdraw_back: "withdraw (world 7 31537000) sav_mid ''DAI'' 50 = Inr sav_accrued"
  by (simp add: withdraw_def demo_defs sav_defs sav_mid_def run_defs)

section \<open>The balance check of \<open>withdraw\<close>\<close>

lemma withdraw_late_errors:
  assumes "isActive (assets s symbol)" and "0 < amount"
    and "amount \<le> supplied (userPositions s (msg_sender e) symbol)"
    and "withdraw e s symbol amount = Inl err"
  shows "err \<noteq> InsufficientBalance"
proof
  assume "err = InsufficientBalance"
  with assms have "bind_res (updateInterest e symbol (msg_sender e) s) (\<lambda>s1.
       let position = userPositions s1 (msg_sender e) symbol in
       bind_res (chk_sub (supplied position) amount) (\<lambda>newSupplied.
       bind_res (checkHealthFactor e s1 symbol (msg_sender e) newSupplied
                   (borrowed position)) (\<lambda>ok.
       if \<not> ok then Inl HealthFactorTooLow
       else
         let s2 = set_position s1 (msg_sender e) symbol
                    (position\<lparr>supplied := newSupplied\<rparr>) in
         bind_res (chk_sub (totalSupplied (assets s2 symbol)) amount) (\<lambda>tot.
         let s3 = set_asset s2 symbol ((assets s2 symbol)\<lparr>totalSupplied := tot\<rparr>) in
         bind_res (call_token (token_transfer e (tokenAddress (assets s3 symbol))
                     (msg_sender e) amount) TransferFailed) (\<lambda>(_::unit).
         Inr s3))))) = Inl InsufficientBalance"
    by (simp add: withdraw_def)
  then show False
    by (auto simp: bind_res_Inl Let_def
          dest: updateInterest_error chk_errors checkHealthFactor_error call_token_error
          split: if_splits)
qed

text \<open>
  Claim C3, as amended. \<open>withdraw\<close> fails with "Insufficient balance" exactly when the
  asset is active, the amount is positive and the amount exceeds \<open>position.supplied\<close> as
  stored when the call starts, that is before \<open>_updateInterest\<close> runs.
\<close>

theorem withdraw_balance_check_precedes_accrual:
  "withdraw e s symbol amount = Inl InsufficientBalance \<longleftrightarrow>
     isActive (assets s symbol) \<and> 0 < amount
     \<and> supplied (userPositions s (msg_sender e) symbol) < amount"
proof
  assume r: "withdraw e s symbol amount = Inl InsufficientBalance"
  then have act: "isActive (assets s symbol)" and pos: "0 < amount"
    by (auto simp: withdraw_def split: if_splits)
  have "\<not> amount \<le> supplied (userPositions s (msg_sender e) symbol)"
    using withdraw_late_errors [OF act pos _ r] by blast
  with act pos show "isActive (assets s symbol) \<and> 0 < amount
     \<and> supplied (userPositions s (msg_sender e) symbol) < amount"
    by (simp add: not_le)
next
  assume "isActive (assets s symbol) \<and> 0 < amount
     \<and> supplied (userPositions s (msg_sender e) symbol) < amount"
  then show "withdraw e s symbol amount = Inl InsufficientBalance"
    by (simp add: withdraw_def not_le)
qed

theorem withdraw_balance_check_precedes_accrual_witness:
  "withdraw (world 7 1000) sav_before ''DAI'' 101 = Inl InsufficientBalance
   \<and> withdraw (world 7 31537000) sav_before ''DAI'' 200 = Inl InsufficientBalance"
  using withdraw_balance_check_precedes_accrual [of "world 7 1000" sav_before "''DAI''" 101]
    withdraw_balance_check_precedes_accrual [of "world 7 31537000" sav_before "''DAI''" 200]
  by (simp add: demo_defs sav_defs)

text \<open>
  The claim as stated fails: in a reachable ledger the position holds 100 and a year of
  interest at 100 percent is pending, so after accrual it holds 200; \<open>withdraw\<close> of 150
  still fails with "Insufficient balance".
\<close>

theorem withdraw_rejects_amount_covered_by_pending_interest:
  "reachable sav_before
   \<and> isActive (assets sav_before ''DAI'')
   \<and> supplied (userPositions sav_before 7 ''DAI'') = 100
   \<and> updateInterest (world 7 31537000) ''DAI'' 7 sav_before = Inr sav_accrued
   \<and> supplied (userPositions sav_accrued 7 ''DAI'') = 200
   \<and> withdraw (world 7 31537000) sav_before ''DAI'' 150 = Inl InsufficientBalance"
  using reachable_sav_before sav_accrue
  by (simp add: demo_defs sav_defs withdraw_def)

section \<open>Supply followed by withdraw\<close>

lemma set_position_same: "set_position s user symbol (userPositions s user symbol) = s"
  by (simp add: set_position_def)

lemma updateInterest_same_time:
  assumes "lastUpdateTimestamp (userPositions s user symbol) = block_timestamp e"
  shows "updateInterest e symbol user s = Inr s"
proof (cases "lastUpdateTimestamp (userPositions s user symbol) = 0")
  case True
  have "(userPositions s user symbol)\<lparr>lastUpdateTimestamp := block_timestamp e\<rparr>
      = userPositions s user symbol"
    using assms by (cases "userPositions s user symbol") simp
  with True show ?thesis by (simp add: updateInterest_def set_position_same)
next
  case False
  with assms show ?thesis by (simp add: updateInterest_def chk_sub_def)
qed

text \<open>
  Claim C9, as amended. After a successful \<open>supply\<close> of \<open>amount\<close>, a \<open>withdraw\<close> of the
  same amount by the same account at the same block time, whose health check passes and
  whose token transfer returns true, succeeds and returns the storage to what
  \<open>_updateInterest\<close> had made of it at the start of the \<open>supply\<close>. So \<open>supplied\<close> and
  \<open>totalSupplied\<close> are back at their values after that accrual; these are the values
  before the \<open>supply\<close> when the accrual added nothing (first touch of the position, or no
  time elapsed since its last update).
\<close>

theorem supply_then_withdraw_round_trip:
  assumes "supply_fn e s symbol amount = Inr s1"
    and "msg_sender e' = msg_sender e" and "block_timestamp e' = block_timestamp e"
    and "checkHealthFactor e' s1 symbol (msg_sender e)
           (supplied (userPositions s1 (msg_sender e) symbol) - amount)
           (borrowed (userPositions s1 (msg_sender e) symbol)) = Inr True"
    and "token_transfer e' (tokenAddress (assets s1 symbol)) (msg_sender e) amount = Some True"
  shows "\<exists>s0. updateInterest e symbol (msg_sender e) s = Inr s0
     \<and> withdraw e' s1 symbol amount = Inr s0
     \<and> (lastUpdateTimestamp (userPositions s (msg_sender e) symbol) = 0
          \<or> block_timestamp e = lastUpdateTimestamp (userPositions s (msg_sender e) symbol) \<longrightarrow>
        supplied (userPositions s0 (msg_sender e) symbol)
          = supplied (userPositions s (msg_sender e) symbol)
        \<and> totalSupplied (assets s0 symbol) = totalSupplied (assets s symbol))"
proof -
  let ?u = "msg_sender e"
  from supply_shape [OF assms(1)] obtain s0 where act: "isActive (assets s symbol)"
    and pos: "0 < amount"
    and s0: "updateInterest e symbol ?u s = Inr s0"
    and fp: "unat (supplied (userPositions s0 ?u symbol)) + unat amount < 2 ^ 256"
    and ft: "unat (totalSupplied (assets s0 symbol)) + unat amount < 2 ^ 256"
    and s1: "s1 = touch s0 symbol ?u
           (totalSupplied (assets s0 symbol) + amount) (totalBorrowed (assets s0 symbol))
           ((userPositions s0 ?u symbol)
              \<lparr>supplied := supplied (userPositions s0 ?u symbol) + amount\<rparr>)"
    by blast
  from updateInterest_shape [OF s0] obtain si bi where
    s0eq: "s0 = touch s symbol ?u (totalSupplied (assets s symbol) + si)
             (totalBorrowed (assets s symbol) + bi)
             \<lparr>supplied = supplied (userPositions s ?u symbol) + si,
              borrowed = borrowed (userPositions s ?u symbol) + bi,
              lastUpdateTimestamp = block_timestamp e\<rparr>"
    and triv: "lastUpdateTimestamp (userPositions s ?u symbol) = 0
            \<or> block_timestamp e = lastUpdateTimestamp (userPositions s ?u symbol)
         \<Longrightarrow> si = 0 \<and> bi = 0"
    by (auto split: if_splits)
  let ?p0 = "userPositions s0 ?u symbol"
  let ?a0 = "assets s0 symbol"
  have last0: "lastUpdateTimestamp ?p0 = block_timestamp e" by (simp add: s0eq)
  have act1: "isActive (assets s1 symbol)" using act by (simp add: s1 s0eq)
  have sup1: "supplied (userPositions s1 (msg_sender e') symbol) = supplied ?p0 + amount"
    and bor1: "borrowed (userPositions s1 (msg_sender e') symbol) = borrowed ?p0"
    and tot1: "totalSupplied (assets s1 symbol) = totalSupplied ?a0 + amount"
    and pos1: "userPositions s1 (msg_sender e') symbol = ?p0\<lparr>supplied := supplied ?p0 + amount\<rparr>"
    by (simp_all add: s1 assms(2))
  have usum: "unat (supplied ?p0 + amount) = unat (supplied ?p0) + unat amount"
    by (rule unat_add_fits [OF fp])
  have tsum: "unat (totalSupplied ?a0 + amount) = unat (totalSupplied ?a0) + unat amount"
    by (rule unat_add_fits [OF ft])
  have enough: "amount \<le> supplied (userPositions s1 (msg_sender e') symbol)"
    by (simp add: sup1 word_le_nat_alt usum)
  have "lastUpdateTimestamp (userPositions s1 (msg_sender e') symbol) = block_timestamp e'"
    by (simp add: pos1 last0 assms(3))
  then have upd: "updateInterest e' symbol (msg_sender e') s1 = Inr s1"
    by (rule updateInterest_same_time)
  have sub1: "chk_sub (supplied (userPositions s1 (msg_sender e') symbol)) amount = Inr (supplied ?p0)"
    by (simp add: sup1 chk_sub_def usum)
  have sub2: "chk_sub (totalSupplied (assets s1 symbol)) amount = Inr (totalSupplied ?a0)"
    by (simp add: tot1 chk_sub_def tsum)
  have chk: "checkHealthFactor e' s1 symbol (msg_sender e') (supplied ?p0) (borrowed ?p0) = Inr True"
    using assms(4) by (simp add: assms(2) [symmetric] sup1 bor1)
  have tok: "token_transfer e' (tokenAddress (assets s1 symbol)) (msg_sender e') amount = Some True"
    using assms(5) by (simp add: assms(2))
  have restored: "touch s1 symbol (msg_sender e') (totalSupplied ?a0) (totalBorrowed (assets s1 symbol))
       ((userPositions s1 (msg_sender e') symbol)\<lparr>supplied := supplied ?p0\<rparr>) = s0"
  proof -
    have "touch s1 symbol (msg_sender e') (totalSupplied ?a0) (totalBorrowed (assets s1 symbol))
       ((userPositions s1 (msg_sender e') symbol)\<lparr>supplied := supplied ?p0\<rparr>)
      = touch s0 symbol ?u (totalSupplied ?a0) (totalBorrowed ?a0) ?p0"
      by (simp add: s1 assms(2) touch_touch)
    then show ?thesis by (simp add: touch_same)
  qed
  have w: "withdraw e' s1 symbol amount = Inr s0"
    using act1 pos enough upd sub1 bor1 chk sub2 tok restored
    by (simp add: withdraw_def Let_def write_supplied call_token_def)
  have "supplied ?p0 = supplied (userPositions s ?u symbol)
        \<and> totalSupplied ?a0 = totalSupplied (assets s symbol)"
    if "lastUpdateTimestamp (userPositions s ?u symbol) = 0
          \<or> block_timestamp e = lastUpdateTimestamp (userPositions s ?u symbol)"
    using triv [OF that] by (simp add: s0eq)
  with s0 w show ?thesis by blast
qed

lemma dai_listed_accrue:
  "updateInterest (world 7 1000) ''DAI'' 7 dai_listed =
     Inr (ledger (dai 0 0) 7 \<lparr>supplied = 0, borrowed = 0, lastUpdateTimestamp = 1000\<rparr>)"
  by (simp add: demo_defs dai_defs run_defs)

theorem supply_then_withdraw_round_trip_witness:
  "supply_fn (world 7 1000) dai_listed ''DAI'' 1000 = Inr dai_supplied
   \<and> (\<exists>s0. updateInterest (world 7 1000) ''DAI'' 7 dai_listed = Inr s0
        \<and> withdraw (world 7 1000) dai_supplied ''DAI'' 1000 = Inr s0
        \<and> supplied (userPositions s0 7 ''DAI'') = supplied (userPositions dai_listed 7 ''DAI'')
        \<and> totalSupplied (assets s0 ''DAI'') = totalSupplied (assets dai_listed ''DAI''))"
proof -
  have a: "supply_fn (world 7 1000) dai_listed ''DAI'' 1000 = Inr dai_supplied"
    using dai_step2 by simp
  have h: "checkHealthFactor (world 7 1000) dai_supplied ''DAI'' (msg_sender (world 7 1000))
           (supplied (userPositions dai_supplied (msg_sender (world 7 1000)) ''DAI'') - 1000)
           (borrowed (userPositions dai_supplied (msg_sender (world 7 1000)) ''DAI'')) = Inr True"
    by (simp add: checkHealthFactor_def demo_defs dai_defs)
  have t: "token_transfer (world 7 1000) (tokenAddress (assets dai_supplied ''DAI''))
        (msg_sender (world 7 1000)) 1000 = Some True"
    by (simp add: world_def)
  have z: "lastUpdateTimestamp (userPositions dai_listed 7 ''DAI'') = 0"
    by (simp add: demo_defs dai_defs)
  from supply_then_withdraw_round_trip [OF a refl refl h t] z
  have "\<exists>s0. updateInterest (world 7 1000) ''DAI'' 7 dai_listed = Inr s0
        \<and> withdraw (world 7 1000) dai_supplied ''DAI'' 1000 = Inr s0
        \<and> supplied (userPositions s0 7 ''DAI'') = supplied (userPositions dai_listed 7 ''DAI'')
        \<and> totalSupplied (assets s0 ''DAI'') = totalSupplied (assets dai_listed ''DAI'')"
    by (simp add: world_def)
  with a show ?thesis by simp
qed

text \<open>
  The claim as stated fails: in a reachable ledger the position holds 100 with a year of
  interest pending. \<open>supply\<close> of 50 succeeds, \<open>withdraw\<close> of 50 at the same block time
  succeeds, and \<open>supplied\<close> and \<open>totalSupplied\<close> are then 200, not the 100 they were
  before the \<open>supply\<close>.
\<close>

theorem round_trip_keeps_accrued_interest:
  "reachable sav_before
   \<and> supplied (userPositions sav_before 7 ''DAI'') = 100
   \<and> totalSupplied (assets sav_before ''DAI'') = 100
   \<and> supply_fn (world 7 31537000) sav_before ''DAI'' 50 = Inr sav_mid
   \<and> withdraw (world 7 31537000) sav_mid ''DAI'' 50 = Inr sav_accrued
   \<and> supplied (userPositions sav_accrued 7 ''DAI'') = 200
   \<and> totalSupplied (assets sav_accrued ''DAI'') = 200"
  using reachable_sav_before sav_supply_later sav_withdraw_back
  by (simp add: demo_defs sav_defs)

section \<open>The totals of an asset\<close>

lemma accrual_totals:
  assumes "updateInterest e symbol user s = Inr s1"
    and "no_excess_borrow_interest e s symbol user"
  shows "\<exists>si bi. bi \<le> si
    \<and> unat (totalSupplied (assets s1 symbol)) = unat (totalSupplied (assets s symbol)) + si
    \<and> unat (totalBorrowed (assets s1 symbol)) = unat (totalBorrowed (assets s symbol)) + bi
    \<and> (\<forall>x. x \<noteq> symbol \<longrightarrow> assets s1 x = assets s x)"
proof -
  from updateInterest_shape [OF assms(1)] obtain si bi where
    s1: "s1 = touch s symbol user (totalSupplied (assets s symbol) + si)
             (totalBorrowed (assets s symbol) + bi)
             \<lparr>supplied = supplied (userPositions s user symbol) + si,
              borrowed = borrowed (userPositions s user symbol) + bi,
              lastUpdateTimestamp = block_timestamp e\<rparr>"
    and fs: "unat (totalSupplied (assets s symbol)) + unat si < 2 ^ 256"
    and fb: "unat (totalBorrowed (assets s symbol)) + unat bi < 2 ^ 256"
    by blast
  have S: "unat (totalSupplied (assets s1 symbol)) = unat (totalSupplied (assets s symbol)) + unat si"
    using unat_add_fits [OF fs] by (simp add: s1)
  have B: "unat (totalBorrowed (assets s1 symbol)) = unat (totalBorrowed (assets s symbol)) + unat bi"
    using unat_add_fits [OF fb] by (simp add: s1)
  from assms have "unat bi \<le> unat si"
    by (simp add: no_excess_borrow_interest_def S B)
  moreover have "\<forall>x. x \<noteq> symbol \<longrightarrow> assets s1 x = assets s x" by (simp add: s1)
  ultimately show ?thesis using S B by blast
qed

lemma supply_keeps_solvent:
  assumes "supply_fn e s symbol amount = Inr s'" and "solvent s x"
    and "no_excess_borrow_interest e s symbol (msg_sender e)"
  shows "solvent s' x"
proof -
  from supply_shape [OF assms(1)] obtain s1 where
    s1: "updateInterest e symbol (msg_sender e) s = Inr s1"
    and f: "unat (totalSupplied (assets s1 symbol)) + unat amount < 2 ^ 256"
    and s': "s' = touch s1 symbol (msg_sender e)
           (totalSupplied (assets s1 symbol) + amount) (totalBorrowed (assets s1 symbol))
           ((userPositions s1 (msg_sender e) symbol)
              \<lparr>supplied := supplied (userPositions s1 (msg_sender e) symbol) + amount\<rparr>)"
    by blast
  from accrual_totals [OF s1 assms(3)] obtain si bi where le: "bi \<le> si"
    and S: "unat (totalSupplied (assets s1 symbol)) = unat (totalSupplied (assets s symbol)) + si"
    and B: "unat (totalBorrowed (assets s1 symbol)) = unat (totalBorrowed (assets s symbol)) + bi"
    and other: "\<forall>x. x \<noteq> symbol \<longrightarrow> assets s1 x = assets s x" by blast
  show ?thesis
  proof (cases "x = symbol")
    case True
    with assms(2) le S B unat_add_fits [OF f] show ?thesis
      by (simp add: solvent_def s' word_le_nat_alt)
  next
    case False
    with assms(2) other show ?thesis by (simp add: solvent_def s')
  qed
qed

lemma borrow_keeps_solvent:
  assumes "borrow e s symbol amount = Inr s'" and "solvent s x"
    and "no_excess_borrow_interest e s symbol (msg_sender e)"
  shows "solvent s' x"
proof -
  from borrow_shape [OF assms(1)] obtain s1 where
    liq: "unat amount \<le> unat (totalSupplied (assets s symbol)) - unat (totalBorrowed (assets s symbol))"
    and bs: "unat (totalBorrowed (assets s symbol)) \<le> unat (totalSupplied (assets s symbol))"
    and s1: "updateInterest e symbol (msg_sender e) s = Inr s1"
    and f: "unat (totalBorrowed (assets s1 symbol)) + unat amount < 2 ^ 256"
    and s': "s' = touch s1 symbol (msg_sender e)
           (totalSupplied (assets s1 symbol)) (totalBorrowed (assets s1 symbol) + amount)
           ((userPositions s1 (msg_sender e) symbol)
              \<lparr>borrowed := borrowed (userPositions s1 (msg_sender e) symbol) + amount\<rparr>)"
    by blast
  from accrual_totals [OF s1 assms(3)] obtain si bi where le: "bi \<le> si"
    and S: "unat (totalSupplied (assets s1 symbol)) = unat (totalSupplied (assets s symbol)) + si"
    and B: "unat (totalBorrowed (assets s1 symbol)) = unat (totalBorrowed (assets s symbol)) + bi"
    and other: "\<forall>x. x \<noteq> symbol \<longrightarrow> assets s1 x = assets s x" by blast
  show ?thesis
  proof (cases "x = symbol")
    case True
    with liq bs le S B unat_add_fits [OF f] show ?thesis
      by (simp add: solvent_def s' word_le_nat_alt)
  next
    case False
    with assms(2) other show ?thesis by (simp add: solvent_def s')
  qed
qed

lemma repay_keeps_solvent:
  assumes "repay e s symbol amount = Inr s'" and "solvent s x"
    and "no_excess_borrow_interest e s symbol (msg_sender e)"
  shows "solvent s' x"
proof -
  from repay_shape [OF assms(1)] obtain s1 r where
    s1: "updateInterest e symbol (msg_sender e) s = Inr s1"
    and r: "unat r \<le> unat (totalBorrowed (assets s1 symbol))"
    and s': "s' = touch s1 symbol (msg_sender e)
           (totalSupplied (assets s1 symbol)) (totalBorrowed (assets s1 symbol) - r)
           ((userPositions s1 (msg_sender e) symbol)
              \<lparr>borrowed := borrowed (userPositions s1 (msg_sender e) symbol) - r\<rparr>)"
    by blast
  from accrual_totals [OF s1 assms(3)] obtain si bi where le: "bi \<le> si"
    and S: "unat (totalSupplied (assets s1 symbol)) = unat (totalSupplied (assets s symbol)) + si"
    and B: "unat (totalBorrowed (assets s1 symbol)) = unat (totalBorrowed (assets s symbol)) + bi"
    and other: "\<forall>x. x \<noteq> symbol \<longrightarrow> assets s1 x = assets s x" by blast
  from r have r': "r \<le> totalBorrowed (assets s1 symbol)" by (simp add: word_le_nat_alt)
  show ?thesis
  proof (cases "x = symbol")
    case True
    with assms(2) le S B unat_sub [OF r'] show ?thesis
      by (simp add: solvent_def s' word_le_nat_alt)
  next
    case False
    with assms(2) other show ?thesis by (simp add: solvent_def s')
  qed
qed

text \<open>
  Claim C1, as amended. \<open>totalSupplied \<ge> totalBorrowed\<close> holds for every asset of the
  initial storage and of an asset just registered, \<open>updateAsset\<close> leaves it as it is, and
  \<open>supply\<close>, \<open>borrow\<close> and \<open>repay\<close> preserve it whenever the accrual step of that call
  adds no more to \<open>totalBorrowed\<close> than to \<open>totalSupplied\<close>, which is the case on the
  first touch of a position and when no time has elapsed. Nothing is stated for an
  accrual whose borrow interest exceeds its supply interest, for \<open>withdraw\<close> or for
  \<open>liquidate\<close>.
\<close>

theorem totals_stay_solvent_without_excess_borrow_interest:
  "solvent init_state x
   \<and> (solvent s x \<and> addAsset e s symbol tok feed cf bf lt sr br = Inr s' \<longrightarrow> solvent s' x)
   \<and> (solvent s x \<and> updateAsset e s symbol cf bf lt sr br active = Inr s' \<longrightarrow> solvent s' x)
   \<and> (solvent s x \<and> no_excess_borrow_interest e s symbol (msg_sender e)
        \<and> (supply_fn e s symbol amount = Inr s' \<or> borrow e s symbol amount = Inr s'
            \<or> repay e s symbol amount = Inr s') \<longrightarrow> solvent s' x)
   \<and> (lastUpdateTimestamp (userPositions s user symbol) = 0
        \<or> block_timestamp e = lastUpdateTimestamp (userPositions s user symbol) \<longrightarrow>
       no_excess_borrow_interest e s symbol user)"
proof (intro conjI impI)
  show "solvent init_state x" by (simp add: solvent_def init_state_def zero_asset_def)
next
  assume h: "solvent s x \<and> addAsset e s symbol tok feed cf bf lt sr br = Inr s'"
  then have a: "addAsset e s symbol tok feed cf bf lt sr br = Inr s'" by simp
  from addAsset_shape [OF a] h show "solvent s' x"
    by (cases "x = symbol") (simp_all add: solvent_def)
next
  assume h: "solvent s x \<and> updateAsset e s symbol cf bf lt sr br active = Inr s'"
  then have a: "updateAsset e s symbol cf bf lt sr br active = Inr s'" by simp
  from updateAsset_shape [OF a] h show "solvent s' x"
    by (cases "x = symbol") (simp_all add: solvent_def)
next
  assume h: "solvent s x \<and> no_excess_borrow_interest e s symbol (msg_sender e)
        \<and> (supply_fn e s symbol amount = Inr s' \<or> borrow e s symbol amount = Inr s'
            \<or> repay e s symbol amount = Inr s')"
  then show "solvent s' x"
    using supply_keeps_solvent borrow_keeps_solvent repay_keeps_solvent by blast
next
  assume h: "lastUpdateTimestamp (userPositions s user symbol) = 0
        \<or> block_timestamp e = lastUpdateTimestamp (userPositions s user symbol)"
  show "no_excess_borrow_interest e s symbol user"
  proof (cases "updateInterest e symbol user s")
    case (Inl a)
    then show ?thesis by (simp add: no_excess_borrow_interest_def)
  next
    case (Inr s1)
    from updateInterest_shape [OF Inr] h obtain si bi where
      s1: "s1 = touch s symbol user (totalSupplied (assets s symbol) + si)
             (totalBorrowed (assets s symbol) + bi)
             \<lparr>supplied = supplied (userPositions s user symbol) + si,
              borrowed = borrowed (userPositions s user symbol) + bi,
              lastUpdateTimestamp = block_timestamp e\<rparr>"
      and z: "si = 0 \<and> bi = 0"
      by (auto split: if_splits)
    then show ?thesis by (simp add: no_excess_borrow_interest_def Inr)
  qed
qed

theorem totals_stay_solvent_without_excess_borrow_interest_witness:
  "solvent init_state ''DAI''
   \<and> addAsset (world 1 1000) init_state ''DAI'' 11 12 9000 9000 9400 0 10000 = Inr dai_listed
   \<and> solvent dai_listed ''DAI''
   \<and> updateAsset (world 1 2000) dai_borrowed ''DAI'' 9000 9000 9400 0 10000 False = Inr dai_paused
   \<and> solvent dai_paused ''DAI''
   \<and> no_excess_borrow_interest (world 7 1000) dai_supplied ''DAI'' 7
   \<and> borrow (world 7 1000) dai_supplied ''DAI'' 900 = Inr dai_borrowed
   \<and> solvent dai_borrowed ''DAI''"
proof -
  have a: "addAsset (world 1 1000) init_state ''DAI'' 11 12 9000 9000 9400 0 10000 = Inr dai_listed"
    using dai_step1 by simp
  have b: "borrow (world 7 1000) dai_supplied ''DAI'' 900 = Inr dai_borrowed"
    using dai_step3 by simp
  have u: "updateAsset (world 1 2000) dai_borrowed ''DAI'' 9000 9000 9400 0 10000 False = Inr dai_paused"
    using dai_step_pause by simp
  have t: "block_timestamp (world 7 1000) = lastUpdateTimestamp (userPositions dai_supplied 7 ''DAI'')"
    by (simp add: demo_defs dai_defs)
  have s0: "solvent init_state ''DAI''"
    using totals_stay_solvent_without_excess_borrow_interest [of "''DAI''"] by simp
  have s1: "solvent dai_listed ''DAI''"
    using totals_stay_solvent_without_excess_borrow_interest [of "''DAI''" init_state "world 1 1000"
        "''DAI''" 11 12 9000 9000 9400 0 10000 dai_listed] a s0
    by simp
  have n: "no_excess_borrow_interest (world 7 1000) dai_supplied ''DAI'' 7"
    using totals_stay_solvent_without_excess_borrow_interest [of _ dai_supplied "world 7 1000" "''DAI''"
        _ _ _ _ _ _ _ _ _ _ 7] t
    by simp
  have s2: "solvent dai_supplied ''DAI''" by (simp add: solvent_def demo_defs dai_defs)
  have s3: "solvent dai_borrowed ''DAI''"
    using totals_stay_solvent_without_excess_borrow_interest [of "''DAI''" dai_supplied "world 7 1000"
        "''DAI''" _ _ _ _ _ _ _ dai_borrowed _ 900] b n s2
    by (simp add: world_def)
  have s4: "solvent dai_paused ''DAI''"
    using totals_stay_solvent_without_excess_borrow_interest [of "''DAI''" dai_borrowed "world 1 2000"
        "''DAI''" _ _ 9000 9000 9400 0 10000 dai_paused False] u s3
    by simp
  from s0 a s1 u s4 n b s3 show ?thesis by simp
qed

text \<open>
  The claim as stated fails, on three reachable ledgers. A year of borrow interest at 100
  percent (and no supply interest) accrued by \<open>repay\<close> leaves \<open>totalSupplied = 1000\<close>
  below \<open>totalBorrowed = 1799\<close>. A \<open>liquidate\<close> of 900 against a position of 1000
  supplied and 950 borrowed takes 990 from \<open>totalSupplied\<close> and 900 from
  \<open>totalBorrowed\<close>, leaving 10 below 50. A \<open>withdraw\<close> of 2000 by a second supplier,
  in a call whose accrual adds nothing, leaves \<open>totalSupplied = 1001\<close> below
  \<open>totalBorrowed = 2700\<close>. Before each of these calls the invariant held.
\<close>

theorem totals_invariant_broken:
  "reachable dai_borrowed \<and> solvent dai_borrowed ''DAI''
   \<and> repay (world 7 31537000) dai_borrowed ''DAI'' 1 = Inr dai_year_later
   \<and> reachable dai_year_later
   \<and> totalSupplied (assets dai_year_later ''DAI'') < totalBorrowed (assets dai_year_later ''DAI'')
   \<and> liquidate (world 9 1753000) dai_borrowed 7 ''DAI'' 900 = Inr dai_liquidated
   \<and> reachable dai_liquidated
   \<and> totalSupplied (assets dai_liquidated ''DAI'') < totalBorrowed (assets dai_liquidated ''DAI'')
   \<and> reachable dai_two_later \<and> solvent dai_two_later ''DAI''
   \<and> withdraw (world 8 63073000) dai_two_later ''DAI'' 2000 = Inr dai_two_withdrawn
   \<and> reachable dai_two_withdrawn
   \<and> totalSupplied (assets dai_two_withdrawn ''DAI'') < totalBorrowed (assets dai_two_withdrawn ''DAI'')"
proof -
  have r1: "reachable dai_year_later"
    by (rule reachable_exec [OF reachable_dai_borrowed dai_step4])
  have r2: "reachable dai_liquidated"
    by (rule reachable_exec [OF reachable_dai_borrowed dai_step_liquidate])
  have r3: "reachable dai_two_withdrawn"
    by (rule reachable_exec [OF reachable_dai_two_later dai_step_withdraw])
  have v: "solvent dai_borrowed ''DAI''" "solvent dai_two_later ''DAI''"
    "totalSupplied (assets dai_year_later ''DAI'') < totalBorrowed (assets dai_year_later ''DAI'')"
    "totalSupplied (assets dai_liquidated ''DAI'') < totalBorrowed (assets dai_liquidated ''DAI'')"
    "totalSupplied (assets dai_two_withdrawn ''DAI'') < totalBorrowed (assets dai_two_withdrawn ''DAI'')"
    by (simp_all add: solvent_def demo_defs dai_defs dai_two_defs)
  from r1 r2 r3 v reachable_dai_borrowed reachable_dai_two_later
    dai_step4 dai_step_liquidate dai_step_withdraw
  show ?thesis by simp
qed

end
